theory Spec2Isabelle
  imports Main "HOL-Library.Word"
begin

unbundle bit_operations_syntax

section \<open>Strings, truthiness and errors\<close>

text \<open>
  A JavaScript string is modelled as a \<^typ>\<open>string\<close>: a list of code units below 256.
  The few characters of the source beyond U+00FF (typographic quotes and dashes inside
  pool texts and templates) are written as the bytes of their UTF-8 form, as the source
  files hold them; no function below inspects them. A value that may be \<open>null\<close> or
  \<open>undefined\<close> is an \<open>option\<close>; a record of strings keyed by strings is a map, read and
  written at ordinary own keys.
\<close>

definition rsquo :: string where
  "rsquo = [CHR 0xE2, CHR 0x80, CHR 0x99]"

definition ldquo :: string where
  "ldquo = [CHR 0xE2, CHR 0x80, CHR 0x9C]"

definition rdquo :: string where
  "rdquo = [CHR 0xE2, CHR 0x80, CHR 0x9D]"

definition mdash :: string where
  "mdash = [CHR 0xE2, CHR 0x80, CHR 0x94]"

definition ndash :: string where
  "ndash = [CHR 0xE2, CHR 0x80, CHR 0x93]"

definition hellip :: string where
  "hellip = [CHR 0xE2, CHR 0x80, CHR 0xA6]"

definition bullet :: string where
  "bullet = [CHR 0xE2, CHR 0x80, CHR 0xA2]"

text \<open>The exceptions the modelled code can raise.\<close>

datatype error =
    EmptyPick     \<comment> \<open>\<open>new Error('Cannot pick from empty array')\<close>\<close>
  | RangeError    \<comment> \<open>\<open>toISOString\<close> of an invalid \<open>Date\<close>\<close>
  | UndefinedValue \<comment> \<open>\<open>undefined\<close> where the declared type has a value\<close>
  | StorageError  \<comment> \<open>\<open>localStorage\<close> missing, disabled or over quota\<close>
  | ReferenceError \<comment> \<open>\<open>window\<close> is not defined\<close>

text \<open>\<open>if (v)\<close> on a \<open>string | null | undefined\<close>: false for null, undefined and \<open>''\<close>.\<close>

definition truthy :: "string option \<Rightarrow> bool" where
  "truthy v = (case v of None \<Rightarrow> False | Some s \<Rightarrow> s \<noteq> [])"

text \<open>The string of a value already tested with \<open>truthy\<close>.\<close>

definition the_default :: "'a \<Rightarrow> 'a option \<Rightarrow> 'a" where
  "the_default d v = (case v of None \<Rightarrow> d | Some x \<Rightarrow> x)"

text \<open>\<open>a || b\<close> on such values.\<close>

definition or_else :: "string option \<Rightarrow> string option \<Rightarrow> string option" where
  "or_else a b = (if truthy a then a else b)"

text \<open>\<open>a ?? b\<close>: only null and undefined fall through.\<close>

definition nullish_or :: "'a option \<Rightarrow> 'a option \<Rightarrow> 'a option" where
  "nullish_or a b = (case a of None \<Rightarrow> b | Some v \<Rightarrow> Some v)"

text \<open>White space as \<open>String.prototype.trim\<close> sees it, among code units below 256.\<close>

definition isSpace :: "char \<Rightarrow> bool" where
  "isSpace c = (of_char c \<in> {9, 10, 11, 12, 13, 32, 160 :: nat})"

definition trim :: "string \<Rightarrow> string" where
  "trim s = rev (dropWhile isSpace (rev (dropWhile isSpace s)))"

definition lowerChar :: "char \<Rightarrow> char" where
  "lowerChar c =
     (let n = of_char c :: nat
      in if (65 \<le> n \<and> n \<le> 90) \<or> (192 \<le> n \<and> n \<le> 222 \<and> n \<noteq> 215)
         then char_of (n + 32) else c)"


definition isDigit :: "char \<Rightarrow> bool" where
  "isDigit c = (48 \<le> (of_char c :: nat) \<and> (of_char c :: nat) \<le> 57)"

section \<open>The hash of both engines\<close>

text \<open>
  \<open>contentEngine.ts\<close> and \<open>articleEngine.ts\<close> carry the same \<open>hash\<close>. \<open>h\<close> starts as
  the number 2166136261; \<open>h ^= code\<close> and \<open>Math.imul\<close> each yield a signed 32-bit
  value, and \<open>Math.abs\<close> closes. On the empty string no conversion happens and the
  result is 2166136261 itself.
\<close>

definition hash_step :: "char \<Rightarrow> int \<Rightarrow> int" where
  "hash_step c h = sint (((word_of_int h :: 32 word) XOR of_char c) * 16777619)"

definition hash :: "string \<Rightarrow> nat" where
  "hash str = nat \<bar>fold hash_step str 2166136261\<bar>"

section \<open>contentEngine.ts\<close>

datatype ReflectionTheme =
  Mindfulness | Hope | Gratitude | Discernment | Suffering | FaithReason

primrec themeString :: "ReflectionTheme \<Rightarrow> string" where
  "themeString Mindfulness = ''mindfulness''"
| "themeString Hope = ''hope''"
| "themeString Gratitude = ''gratitude''"
| "themeString Discernment = ''discernment''"
| "themeString Suffering = ''suffering''"
| "themeString FaithReason = ''faith-reason''"

record scripture =
  s_text :: string
  s_ref :: string

record quote =
  q_text :: string
  q_author :: string

record Reflection =
  r_dateISO :: string
  r_theme :: ReflectionTheme
  r_title :: string
  r_scripture :: scripture
  r_quote :: quote
  r_body :: "string list"
  r_prayer :: string
  r_questions :: "string list"
  r_tags :: "string list"

definition themes :: "ReflectionTheme list" where
  "themes = [Mindfulness, Hope, Gratitude, Discernment, Suffering, FaithReason]"

text \<open>\<open>pick\<close> of \<open>contentEngine.ts\<close>: throws on the empty array.\<close>

definition pick :: "'a list \<Rightarrow> nat \<Rightarrow> error + 'a" where
  "pick arr seed = (if length arr = 0 then Inl EmptyPick else Inr (arr ! (seed mod length arr)))"

definition scripturePool :: "scripture list" where
  "scripturePool =
    [\<lparr>s_text = ''Be still, and know that I am God.'', s_ref = ''Psalm 46:10''\<rparr>,
     \<lparr>s_text = ''In quietness and in confidence shall be your strength.'', s_ref = ''Isaiah 30:15''\<rparr>,
     \<lparr>s_text = ''Pray without ceasing.'', s_ref = ''1 Thessalonians 5:17''\<rparr>,
     \<lparr>s_text = ''In Him was life; and the life was the light of men.'', s_ref = ''John 1:4''\<rparr>,
     \<lparr>s_text = ''Be transformed by the renewing of your mind.'', s_ref = ''Romans 12:2''\<rparr>,
     \<lparr>s_text = ''Draw nigh to God, and he will draw nigh to you.'', s_ref = ''James 4:8''\<rparr>]"

definition quotePool :: "quote list" where
  "quotePool =
    [\<lparr>q_text = ''The unexamined life is not worth living.'', q_author = ''Socrates''\<rparr>,
     \<lparr>q_text = ''You have made us for Yourself, and our heart is restless until it rests in You.'',
      q_author = ''Augustine''\<rparr>,
     \<lparr>q_text = ''Faith seeks understanding.'', q_author = ''Anselm''\<rparr>,
     \<lparr>q_text = ''All truth is God'' @ rsquo @ ''s truth.'', q_author = ''Arthur Holmes''\<rparr>,
     \<lparr>q_text = ''He who has God and everything else has no more than he who has God only.'',
      q_author = ''C. S. Lewis''\<rparr>,
     \<lparr>q_text = ''What we think about when we are free to think about what we will'' @ mdash
        @ ''that is what we are or will soon become.'', q_author = ''A. W. Tozer''\<rparr>]"

primrec titleFragments :: "ReflectionTheme \<Rightarrow> string list" where
  "titleFragments Mindfulness =
     [''Be Still and Know'', ''Attention in the Presence of Christ'',
      ''Breath, Body, and Beloved'', ''Christ-centered Stillness'']"
| "titleFragments Hope =
     [''Bright Hope in the Present'', ''Anchored Expectation'', ''Light at the Edge'',
      ''Hope That Does Not Shame'']"
| "titleFragments Gratitude =
     [''Receiving the Day'', ''Gratitude as Worship'', ''Counting Gifts with God'',
      ''Eucharistic Vision'']"
| "titleFragments Discernment =
     [''Hearing the Still Small Voice'', ''Wisdom for the Way'', ''Testing and Holding Fast'',
      ''Walking in Light'']"
| "titleFragments Suffering =
     [''Meaning in the Night'', ''Companion in Sorrow'', ''Cross and Consolation'',
      ''Lament and Trust'']"
| "titleFragments FaithReason =
     [''Logos and Light'', ''Mind Renewed'', ''Reason as Servant of Love'',
      ''Harmony of Faith and Mind'']"

definition bodyTemplates :: "string list" where
  "bodyTemplates =
    [''Today'' @ rsquo @ ''s reflection considers THEME as a posture of loving attention before God. In SCRIPTURE, we are invited not to escape the world but to behold God within it.'',
     ''Mindfulness in Christ is not emptying into nothingness, but opening to communion. As QUOTE reminds us, the examined life is ordered toward Truth Himself.'',
     ''Practice a gentle rhythm: inhale '' @ ldquo @ ''Jesus,'' @ rdquo @ '' exhale '' @ ldquo
       @ ''have mercy.'' @ rdquo
       @ '' Let distractions become cues for returning to Presence without judgment.'',
     ''Let your reason serve love. Ask: what is true here, what is good to do, and what is beautiful to behold in light of the Gospel?'']"

definition prayers :: "string list" where
  "prayers =
    [''Lord Jesus, quiet my restless heart and tune my attention to Your presence. Teach me to abide in love. Amen.'',
     ''Father, renew my mind and guide my steps. Let Your light illumine my thoughts and actions today. Amen.'',
     ''Holy Spirit, breathe in me a steady, gentle awareness of Your presence, and kindle hope within. Amen.'']"

definition questionsPool :: "string list" where
  "questionsPool =
    [''Where did I notice God'' @ rsquo @ ''s presence today?'',
     ''What stirred anxiety, and how might I bring it to prayer?'',
     ''What is one small act of love or truth I can offer next?'',
     ''How can I let my breath become a reminder to return to Christ?'']"

text \<open>
  The pool tables are module constants of the source. They are gathered in a record and
  passed to the generator, so that a change of the tables between two calls can be
  expressed; \<open>sourcePools\<close> is the record of the tables as the source has them.
\<close>

record pools =
  p_scripturePool :: "scripture list"
  p_quotePool :: "quote list"
  p_titleFragments :: "ReflectionTheme \<Rightarrow> string list"
  p_bodyTemplates :: "string list"
  p_prayers :: "string list"
  p_questionsPool :: "string list"

definition sourcePools :: pools where
  "sourcePools =
    \<lparr>p_scripturePool = scripturePool, p_quotePool = quotePool,
     p_titleFragments = titleFragments, p_bodyTemplates = bodyTemplates,
     p_prayers = prayers, p_questionsPool = questionsPool\<rparr>"

primrec humanizeTheme :: "ReflectionTheme \<Rightarrow> string" where
  "humanizeTheme Mindfulness = ''mindfulness in Christ''"
| "humanizeTheme Hope = ''Christian hope''"
| "humanizeTheme Gratitude = ''gratitude before God''"
| "humanizeTheme Discernment = ''spiritual discernment''"
| "humanizeTheme Suffering = ''suffering with Christ''"
| "humanizeTheme FaithReason = ''the harmony of faith and reason''"

text \<open>
  \<open>s.replace(/PAT/g, rep)\<close> for a literal, non-empty pattern. In the replacement text
  JavaScript reads \<open>$$\<close> as a dollar sign, \<open>$&\<close> as the match, \<open>$`\<close> and \<open>$'\<close> as
  the text before and after the match; any other \<open>$\<close> stays (the patterns have no
  groups). \<open>expandRep\<close> does that for one match.
\<close>

fun expandRep :: "string \<Rightarrow> string \<Rightarrow> string \<Rightarrow> string \<Rightarrow> string" where
  "expandRep pre matched post [] = []"
| "expandRep pre matched post [c] = [c]"
| "expandRep pre matched post (c # d # cs) =
     (if c = CHR ''$'' \<and> d = CHR ''$'' then CHR ''$'' # expandRep pre matched post cs
      else if c = CHR ''$'' \<and> d = CHR ''&'' then matched @ expandRep pre matched post cs
      else if c = CHR ''$'' \<and> d = CHR 0x60 then pre @ expandRep pre matched post cs
      else if c = CHR ''$'' \<and> d = CHR 0x27 then post @ expandRep pre matched post cs
      else c # expandRep pre matched post (d # cs))"

function replaceFrom :: "string \<Rightarrow> string \<Rightarrow> string \<Rightarrow> string \<Rightarrow> string" where
  "replaceFrom pat rep pre s =
     (if s = [] \<or> pat = [] then s
      else if take (length pat) s = pat
        then expandRep pre pat (drop (length pat) s) rep
             @ replaceFrom pat rep (pre @ pat) (drop (length pat) s)
        else hd s # replaceFrom pat rep (pre @ [hd s]) (tl s))"
  by pat_completeness auto
termination
  by (relation "measure (\<lambda>(pat, rep, pre, s). length s)") auto

declare replaceFrom.simps [simp del]

definition replaceAll :: "string \<Rightarrow> string \<Rightarrow> string \<Rightarrow> string" where
  "replaceAll pat rep s = replaceFrom pat rep [] s"

definition makeBody :: "pools \<Rightarrow> ReflectionTheme \<Rightarrow> scripture \<Rightarrow> quote \<Rightarrow> nat \<Rightarrow> string list" where
  "makeBody P theme scr quo seed =
     map (\<lambda>t.
        replaceAll ''QUOTE'' ([CHR 0x22] @ q_text quo @ [CHR 0x22] @ '' '' @ mdash @ '' '' @ q_author quo)
          (replaceAll ''SCRIPTURE'' ([CHR 0x22] @ s_text scr @ [CHR 0x22] @ '' ('' @ s_ref scr @ '')'')
            (replaceAll ''THEME'' (humanizeTheme theme) t)))
       (p_bodyTemplates P)"

text \<open>
  \<open>[a, b].filter((v, idx, arr) => arr.indexOf(v) === idx)\<close>: an element stays when its
  first occurrence in the whole array is at its own index.
\<close>

fun indexOf :: "'a list \<Rightarrow> 'a \<Rightarrow> nat option" where
  "indexOf [] v = None"
| "indexOf (x # xs) v = (if x = v then Some 0 else map_option Suc (indexOf xs v))"

definition firstOccurrences :: "'a list \<Rightarrow> 'a list" where
  "firstOccurrences arr =
     map snd (filter (\<lambda>(idx, v). indexOf arr v = Some idx) (zip [0 ..< length arr] arr))"

text \<open>
  The host's \<open>Date\<close> is not code of the repository. The functions below take what they
  use of it as a record of operations over a type \<open>'d\<close> of date objects.
\<close>

record 'd host =
  toISOString :: "'d \<Rightarrow> error + string"
     \<comment> \<open>\<open>d.toISOString()\<close>; \<open>RangeError\<close> on an invalid date\<close>
  daysBefore :: "'d \<Rightarrow> nat \<Rightarrow> 'd"
     \<comment> \<open>\<open>const d = new Date(base); d.setDate(base.getDate() - i)\<close>\<close>
  toLocaleDateString :: "'d \<Rightarrow> string"
     \<comment> \<open>\<open>d.toLocaleDateString(undefined, {year, month: 'short', day})\<close>\<close>

text \<open>Sequencing of calls that may throw: the first exception ends the computation.\<close>

definition bindE :: "error + 'a \<Rightarrow> ('a \<Rightarrow> error + 'b) \<Rightarrow> error + 'b" where
  "bindE m f = (case m of Inl e \<Rightarrow> Inl e | Inr x \<Rightarrow> f x)"

definition generateReflection ::
  "'d host \<Rightarrow> pools \<Rightarrow> 'd \<Rightarrow> ReflectionTheme \<Rightarrow> error + Reflection" where
  "generateReflection H P date theme =
     bindE (toISOString H date) (\<lambda>full.
       let dateISO = take 10 full;
           seed = hash (dateISO @ ''|'' @ themeString theme)
       in bindE (pick (p_scripturePool P) (seed + 1)) (\<lambda>scr.
          bindE (pick (p_quotePool P) (seed + 7)) (\<lambda>quo.
          bindE (pick (p_titleFragments P theme) (seed + 13)) (\<lambda>title.
          let body = makeBody P theme scr quo seed
          in bindE (pick (p_prayers P) (seed + 17)) (\<lambda>prayer.
             bindE (pick (p_questionsPool P) (seed + 19)) (\<lambda>q1.
             bindE (pick (p_questionsPool P) (seed + 23)) (\<lambda>q2.
             Inr \<lparr>r_dateISO = dateISO, r_theme = theme, r_title = title, r_scripture = scr,
                  r_quote = quo, r_body = body, r_prayer = prayer,
                  r_questions = firstOccurrences [q1, q2],
                  r_tags = [humanizeTheme theme, ''daily'', ''reflection'']\<rparr>)))))))"


section \<open>articleEngine.ts\<close>

datatype TopicKey =
  FaithAndReason | Ethics | Metaphysics | Theology | Scripture | Aesthetics | History | Apologetics

text \<open>The string a \<open>TopicKey\<close> is in the source.\<close>

primrec topicKeyString :: "TopicKey \<Rightarrow> string" where
  "topicKeyString FaithAndReason = ''faith-and-reason''"
| "topicKeyString Ethics = ''ethics''"
| "topicKeyString Metaphysics = ''metaphysics''"
| "topicKeyString Theology = ''theology''"
| "topicKeyString Scripture = ''scripture''"
| "topicKeyString Aesthetics = ''aesthetics''"
| "topicKeyString History = ''history''"
| "topicKeyString Apologetics = ''apologetics''"

record TopicMeta =
  m_key :: TopicKey
  m_label :: string
  m_imageKeyword :: string

definition topics :: "TopicMeta list" where
  "topics =
    [\<lparr>m_key = FaithAndReason, m_label = ''Faith & Reason'', m_imageKeyword = ''compass''\<rparr>,
     \<lparr>m_key = Ethics, m_label = ''Ethics'', m_imageKeyword = ''scales''\<rparr>,
     \<lparr>m_key = Metaphysics, m_label = ''Metaphysics'', m_imageKeyword = ''galaxy''\<rparr>,
     \<lparr>m_key = Theology, m_label = ''Theology'', m_imageKeyword = ''stained glass''\<rparr>,
     \<lparr>m_key = Scripture, m_label = ''Scripture'', m_imageKeyword = ''cross sunrise''\<rparr>,
     \<lparr>m_key = Aesthetics, m_label = ''Aesthetics'', m_imageKeyword = ''statue''\<rparr>,
     \<lparr>m_key = History, m_label = ''History'', m_imageKeyword = ''ruins''\<rparr>,
     \<lparr>m_key = Apologetics, m_label = ''Apologetics'', m_imageKeyword = ''shield''\<rparr>]"

text \<open>
  \<open>pick\<close> of \<open>articleEngine.ts\<close>: \<open>arr[seed % arr.length]\<close> with no check. On the
  empty array the index is \<open>NaN\<close> and the read yields \<open>undefined\<close>, here \<open>None\<close>;
  nothing is thrown.
\<close>

definition pick_ae :: "'a list \<Rightarrow> nat \<Rightarrow> 'a option" where
  "pick_ae arr seed = (if length arr = 0 then None else Some (arr ! (seed mod length arr)))"

text \<open>
  A caller of \<open>pick_ae\<close> declares the picked value as defined. The model records an
  \<open>undefined\<close> that reaches such a place as the outcome \<open>UndefinedValue\<close>.
\<close>

definition defined :: "'a option \<Rightarrow> error + 'a" where
  "defined v = (case v of None \<Rightarrow> Inl UndefinedValue | Some x \<Rightarrow> Inr x)"

definition rotate_arr :: "'a list \<Rightarrow> nat \<Rightarrow> 'a list" where
  "rotate_arr arr seed =
     (let n = length arr
      in if n = 0 then arr
         else let offset = seed mod n in drop offset arr @ take offset arr)"

definition sampleDeterministic :: "'a list \<Rightarrow> nat \<Rightarrow> nat \<Rightarrow> 'a list" where
  "sampleDeterministic arr count seed =
     (if length arr = 0 then []
      else let rotated = rotate_arr arr seed
           in if count \<ge> length arr then rotated else take count rotated)"

primrec titlePool :: "TopicKey \<Rightarrow> string list" where
  "titlePool FaithAndReason =
     [''Reason in Service of Love'',
      ''Logos and the Light of Faith'',
      ''When Inquiry Kneels'',
      ''Thinking with the Church'',
      ''Mind Renewed in Christ'',
      ''Truth Weds Trust'']"
| "titlePool Ethics =
     [''The Shape of the Good Life'',
      ''Virtue and the Beatitudes'',
      ''Habits of Holy Courage'',
      ''Mercy and Justice'',
      ''Formed by Love'']"
| "titlePool Metaphysics =
     [''Being, Gift, and Creator'',
      ''Contingency and the Necessary'',
      ''Light from First Principles'',
      ''Participation in Being'',
      ''Wonder Before What Is'']"
| "titlePool Theology =
     [''Knowing God in Mystery'',
      ''Trinity and the Life of Love'',
      ''The Cross at the Center'',
      ''Grace and Nature'',
      ''Speaking of God Well'']"
| "titlePool Scripture =
     [''Reading with the Saints'',
      ''Scripture as Living Word'',
      ''Hearing God Today'',
      ''From Text to Transformation'',
      ''Word that Forms Us'']"
| "titlePool Aesthetics =
     [''Beauty as a Path to God'',
      ''Icons of Glory'',
      ''Art and the Ache for Home'',
      ''The Radiance of Form'',
      ''Attention to Splendor'']"
| "titlePool History =
     [''Lessons from the Fathers'',
      ''Streams of Tradition'',
      ''Renewal in Every Age'',
      ''Pilgrims and Witnesses'',
      ''Memory for Mission'']"
| "titlePool Apologetics =
     [''A Reason for Hope'',
      ''Answering with Gentleness'',
      ''Truth in the Public Square'',
      ''Confidence without Arrogance'',
      ''Giving the Why with Love'']"

primrec excerptPool :: "TopicKey \<Rightarrow> string list" where
  "excerptPool FaithAndReason =
     [''How faith and inquiry enrich one another without compromise.'',
      ''Why the life of the mind belongs inside discipleship.'',
      ''Honoring both revelation and reasoned arguments.'',
      ''Thinking deeply as an act of trust.'']"
| "excerptPool Ethics =
     [''From habits to holiness: character shaped by grace.'',
      ''What the Beatitudes teach about real flourishing.'',
      ''Navigating moral gray with the light of Christ.'',
      ''Virtue as love'' @ rsquo @ ''s steady form.'']"
| "excerptPool Metaphysics =
     [''From contingency to Creator: a first-philosophy path.'',
      ''Seeing creation as gift and participation.'',
      ''How being and goodness anchor our lives.'',
      ''Wonder before the fact of existence.'']"
| "excerptPool Theology =
     [''Entering mystery with reverence and clarity.'',
      ''The Cross and Resurrection as interpretive center.'',
      ''Grace elevates, not erases, nature.'',
      ''The Trinity as love'' @ rsquo @ ''s eternal life.'']"
| "excerptPool Scripture =
     [''Lectio with the Church: hearing the living Word.'',
      ''From text to transformation in daily life.'',
      ''Reading as communion, not mere information.'',
      ''Word that reads us back.'']"
| "excerptPool Aesthetics =
     [''Beauty draws us toward the True and the Good.'',
      ''Seeing with new eyes: a theology of art.'',
      ''Why form and radiance matter to the soul.'',
      ''Attention trained by splendor.'']"
| "excerptPool History =
     [''Receiving the wisdom of saints and teachers.'',
      ''Movements of renewal across the centuries.'',
      ''Witnesses who show faith under pressure.'',
      ''Tradition as faithful memory.'']"
| "excerptPool Apologetics =
     [''Giving reasons for hope with gentleness.'',
      ''Truth in the public square without fear.'',
      ''Confidence rooted in Christ, not in victory.'',
      ''Clarity with compassion persuades.'']"

primrec paragraphsByTopic :: "TopicKey \<Rightarrow> string list" where
  "paragraphsByTopic FaithAndReason =
     [''Faith and reason are not rivals but friends; each asks for the whole truth and receives it as gift.'',
      ''Christian inquiry kneels before revelation without abandoning clear thinking or careful argument.'',
      ''To love God with the mind is to let thought be purified by humility and guided by the Church'' @ rsquo @ ''s wisdom.'',
      ''Reason serves love best when it seeks understanding that becomes worship.'',
      ''In prayer, questions become places of trust; in study, trust becomes patient inquiry.'',
      ''Christ, the Logos, unites what we know and whom we love.'',
      ''A disciple'' @ rsquo @ ''s intellect is not neutral ground; it is soil for seeds of light.'']"
| "paragraphsByTopic Ethics =
     [''Virtue is form given to love'' @ mdash @ ''habits trained to choose the good with joy.'',
      ''The Beatitudes describe a life beautiful in God'' @ rsquo @ ''s eyes, not merely successful.'',
      ''Conscience matures when taught by truth, strengthened by grace, and exercised in small, concrete acts.'',
      ''Mercy perfects justice by fulfilling its aim: the good of the other.'',
      ''Freedom grows where desire is healed, not indulged.'',
      ''Holiness is not sterility but the fullness of love'' @ rsquo @ ''s courage.'']"
| "paragraphsByTopic Metaphysics =
     [''To ask why there is anything at all is to stand at the edge of wonder.'',
      ''Creation is given, not necessary; it participates in Being who is first.'',
      ''Causality opens onto meaning: final causes point beyond utility to purpose.'',
      ''Contingent things echo a more-than-contingent Source.'',
      ''The true, good, and beautiful are convertible because they flow from one simple act of being.'',
      ''First principles are not shortcuts but foundations for reverent thought.'']"
| "paragraphsByTopic Theology =
     [''Theology speaks after listening; it answers revelation with careful reverence.'',
      ''God is not an item among items but the One in whom we live and move and have our being.'',
      ''The Cross reveals both the gravity of sin and the greater gravity of love.'',
      ''Grace heals, elevates, and perfects nature without erasing it.'',
      ''The Trinity is not an abstract puzzle but the living life of God shared with us.'',
      ''Dogma protects mystery so it can be adored rather than flattened.'']"
| "paragraphsByTopic Scripture =
     [''Scripture is living Word: to read is to be addressed by God.'',
      ''We read with the Church so that private impressions are tested by common faith.'',
      ''Lectio divina forms a rhythm of hearing, responding, resting, and being sent.'',
      ''Meditation turns words into prayer; contemplation lets prayer ripen into quiet joy.'',
      ''The canon is a symphony where Christ is the theme.'',
      ''To memorize a verse is to carry light in the mind.'']"
| "paragraphsByTopic Aesthetics =
     [''Beauty does not distract from God; it discloses Him.'',
      ''Form is the radiance of order; splendor invites attention made pure.'',
      ''Icons teach us to see; art can become prayer when offered in love.'',
      ''Desire learns to love the beautiful truly when healed by grace.'',
      ''The Church'' @ rsquo @ ''s arts are not luxuries but language for glory.'',
      ''A crafted thing can tutor the heart toward patience.'']"
| "paragraphsByTopic History =
     [''The communion of saints is not nostalgia but companionship for mission.'',
      ''Renewal appears in every age when hearts return to the first love.'',
      ''Councils, creeds, and catechesis are memory serving charity.'',
      ''Martyrs witness that truth is worth more than comfort.'',
      ''Tradition carries fire, not ashes; it hands on life.'',
      ''History chastens our pride and enlarges our hope.'']"
| "paragraphsByTopic Apologetics =
     [''Apologetics is not winning arguments but winning trust for the Truth.'',
      ''Give reasons, yes'' @ mdash @ ''but with gentleness and patience born of prayer.'',
      ''Public square clarity should be salted with compassion.'',
      ''Confidence rests in Christ'' @ rsquo @ ''s lordship, not in our eloquence.'',
      ''Questions are doors, not threats, when the Church is secure in her hope.'',
      ''Beauty and goodness often persuade where syllogisms cannot.'']"

primrec practiceByTopic :: "TopicKey \<Rightarrow> string list" where
  "practiceByTopic FaithAndReason =
     [''Practice: write one honest question to bring into prayer and study today.'',
      ''Practice: read a paragraph from a Doctor of the Church and journal one line of light.'']"
| "practiceByTopic Ethics =
     [''Practice: choose one concrete act of mercy and do it quietly.'',
      ''Practice: name a virtue to practice in a small decision before noon.'']"
| "practiceByTopic Metaphysics =
     [''Practice: spend five minutes in wonder outdoors and thank God simply.'',
      ''Practice: trace a cause in your day back to its purpose and offer it to God.'']"
| "practiceByTopic Theology =
     [''Practice: pray the Creed slowly, lingering at one phrase.'',
      ''Practice: read one paragraph of a classic catechism and respond in prayer.'']"
| "practiceByTopic Scripture =
     [''Practice: try lectio divina on a short psalm today.'',
      ''Practice: memorize one verse and repeat it at noon and evening.'']"
| "practiceByTopic Aesthetics =
     [''Practice: sit with a sacred image for two minutes and notice one detail.'',
      ''Practice: create one small thing and offer it to God in gratitude.'']"
| "practiceByTopic History =
     [''Practice: read a short life of a saint and imitate one habit today.'',
      ''Practice: ask someone older in faith one question about God'' @ rsquo @ ''s faithfulness.'']"
| "practiceByTopic Apologetics =
     [''Practice: write a gentle, clear answer to a common question you hear.'',
      ''Practice: pray for someone who disagrees with you by name.'']"

primrec scriptureByTopic :: "TopicKey \<Rightarrow> scripture list" where
  "scriptureByTopic FaithAndReason =
     [\<lparr>s_text = ''Be transformed by the renewing of your mind.'', s_ref = ''Romans 12:2''\<rparr>,
      \<lparr>s_text = ''In him was life; and the life was the light of men.'', s_ref = ''John 1:4''\<rparr>]"
| "scriptureByTopic Ethics =
     [\<lparr>s_text = ''Blessed are the pure in heart, for they shall see God.'', s_ref = ''Matthew 5:8''\<rparr>,
      \<lparr>s_text = ''What does the Lord require of you but to do justice, and to love kindness, and to walk humbly?'', s_ref = ''Micah 6:8''\<rparr>]"
| "scriptureByTopic Metaphysics =
     [\<lparr>s_text = ''In him we live and move and have our being.'', s_ref = ''Acts 17:28''\<rparr>,
      \<lparr>s_text = ''He is before all things, and in him all things hold together.'', s_ref = ''Colossians 1:17''\<rparr>]"
| "scriptureByTopic Theology =
     [\<lparr>s_text = ''The Word became flesh and dwelt among us.'', s_ref = ''John 1:14''\<rparr>,
      \<lparr>s_text = ''Holy, holy, holy is the Lord of hosts.'', s_ref = ''Isaiah 6:3''\<rparr>]"
| "scriptureByTopic Scripture =
     [\<lparr>s_text = ''Your word is a lamp to my feet and a light to my path.'', s_ref = ''Psalm 119:105''\<rparr>,
      \<lparr>s_text = ''All Scripture is breathed out by God and profitable for teaching.'', s_ref = ''2 Timothy 3:16''\<rparr>]"
| "scriptureByTopic Aesthetics =
     [\<lparr>s_text = ''Worship the Lord in the beauty of holiness.'', s_ref = ''Psalm 96:9''\<rparr>,
      \<lparr>s_text = ''Whatever is lovely, think about these things.'', s_ref = ''Philippians 4:8''\<rparr>]"
| "scriptureByTopic History =
     [\<lparr>s_text = ''Remember the days of old; consider the years of many generations.'', s_ref = ''Deuteronomy 32:7''\<rparr>,
      \<lparr>s_text = ''We are surrounded by so great a cloud of witnesses'' @ hellip, s_ref = ''Hebrews 12:1''\<rparr>]"
| "scriptureByTopic Apologetics =
     [\<lparr>s_text = ''Always be prepared to make a defense'' @ hellip @ '' yet with gentleness and respect.'', s_ref = ''1 Peter 3:15''\<rparr>,
      \<lparr>s_text = ''Let your speech always be gracious, seasoned with salt.'', s_ref = ''Colossians 4:6''\<rparr>]"

primrec extraTags :: "TopicKey \<Rightarrow> string list" where
  "extraTags FaithAndReason =
     [''reason'',
      ''revelation'',
      ''logos'']"
| "extraTags Ethics =
     [''virtue'',
      ''mercy'',
      ''justice'']"
| "extraTags Metaphysics =
     [''being'',
      ''first principles'',
      ''causality'']"
| "extraTags Theology =
     [''trinity'',
      ''incarnation'',
      ''grace'']"
| "extraTags Scripture =
     [''lectio divina'',
      ''word'',
      ''canon'']"
| "extraTags Aesthetics =
     [''beauty'',
      ''form'',
      ''icon'']"
| "extraTags History =
     [''tradition'',
      ''saints'',
      ''renewal'']"
| "extraTags Apologetics =
     [''hope'',
      ''gentleness'',
      ''public square'']"

definition generalConnective :: "string list" where
  "generalConnective =
    [''Prayer steadies inquiry so that thought becomes worship and action becomes charity.'',
     ''Gratitude clears vision; from gratitude we can think, choose, and love more truly.'',
     ''Small, faithful acts shape the soul more than rare heroic moments.'']"

definition quotePool_ae :: "quote list" where
  "quotePool_ae =
    [\<lparr>q_text = ''Faith seeks understanding.'', q_author = ''Anselm''\<rparr>,
     \<lparr>q_text = ''The unexamined life is not worth living.'', q_author = ''Socrates''\<rparr>,
     \<lparr>q_text = ''You have made us for Yourself, and our heart is restless until it rests in You.'', q_author = ''Augustine''\<rparr>,
     \<lparr>q_text = ''All truth is God'' @ rsquo @ ''s truth.'', q_author = ''Arthur Holmes''\<rparr>,
     \<lparr>q_text = ''He who has God and everything else has no more than he who has God only.'', q_author = ''C. S. Lewis''\<rparr>]"

text \<open>A non-negative integer written in decimal, as a template literal writes it.\<close>

fun digitChar :: "nat \<Rightarrow> char" where
  "digitChar n = char_of (48 + n)"

fun numberToString :: "nat \<Rightarrow> string" where
  "numberToString n =
     (if n < 10 then [digitChar n] else numberToString (n div 10) @ [digitChar (n mod 10)])"

declare numberToString.simps [simp del]



definition articleId :: "TopicKey \<Rightarrow> string \<Rightarrow> nat \<Rightarrow> string" where
  "articleId topic dateISO index =
     topicKeyString topic @ ''-'' @ filter (\<lambda>c. c \<noteq> CHR ''-'') dateISO @ ''-''
       @ numberToString index"

definition humanLabel :: "TopicKey \<Rightarrow> string" where
  "humanLabel topic =
     (case find (\<lambda>t. m_key t = topic) topics of
        Some meta \<Rightarrow> m_label meta
      | None \<Rightarrow> topicKeyString topic)"


definition buildBody :: "TopicKey \<Rightarrow> nat \<Rightarrow> error + string list" where
  "buildBody topic seed =
     (let baseCount = 3 + (seed mod 2);
          core = sampleDeterministic (paragraphsByTopic topic) baseCount (seed + 101)
      in bindE (defined (pick_ae (scriptureByTopic topic) (seed + 211))) (\<lambda>scr.
         let scripturePara = ''Scripture: '' @ ldquo @ s_text scr @ rdquo @ '' ('' @ s_ref scr @ '').''
         in bindE (defined (pick_ae generalConnective (seed + 307))) (\<lambda>connect.
            bindE (defined (pick_ae (practiceByTopic topic) (seed + 409))) (\<lambda>practice.
            Inr (core @ [connect] @ [scripturePara] @ [practice])))))"

text \<open>
  The regular expression \<open>^([a-z-]+)-(\d{8})-(\d+)$\<close>. The last group is the run of
  digits that ends the string, the second the eight characters before the hyphen in
  front of it, the first all that precedes the hyphen before those; \<open>matchArticleId\<close>
  reads the three groups off from the end. \<open>matchArticleId_iff\<close> below shows that this
  is the only way the pattern can match.
\<close>

definition isSlugChar :: "char \<Rightarrow> bool" where
  "isSlugChar c = ((97 \<le> (of_char c :: nat) \<and> (of_char c :: nat) \<le> 122) \<or> c = CHR ''-'')"

definition matchArticleId :: "string \<Rightarrow> (string \<times> string \<times> string) option" where
  "matchArticleId aid =
     (let r = rev aid;
          g3 = takeWhile isDigit r;
          r1 = dropWhile isDigit r
      in if g3 = [] \<or> r1 = [] \<or> hd r1 \<noteq> CHR ''-'' then None
         else let g2 = take 8 (tl r1);
                  r2 = drop 8 (tl r1)
              in if length g2 \<noteq> 8 \<or> \<not> list_all isDigit g2 \<or> r2 = [] \<or> hd r2 \<noteq> CHR ''-''
                 then None
                 else let g1 = tl r2
                      in if g1 = [] \<or> \<not> list_all isSlugChar g1 then None
                         else Some (rev g1, rev g2, rev g3))"



record ArticleCore =
  c_id :: string
  c_title :: string
  c_excerpt :: string
  c_image :: string
  c_tags :: "string list"
  c_body :: "string list"
  c_quote :: quote
  c_topic :: TopicKey
  c_dateISO :: string

text \<open>
  \<open>generateArticleCore\<close> also builds an image query from the title and drops it: the
  image is a constant URL. The query has no part in the result and is left out here.
\<close>

definition generateArticleCore :: "TopicKey \<Rightarrow> string \<Rightarrow> nat \<Rightarrow> error + ArticleCore" where
  "generateArticleCore topic dateISO index =
     (let seedBase = hash (topicKeyString topic @ ''|'' @ dateISO @ ''|'' @ numberToString index);
          aid = articleId topic dateISO index
      in bindE (defined (pick_ae (titlePool topic) (seedBase + 3))) (\<lambda>title.
         bindE (defined (pick_ae (excerptPool topic) (seedBase + 7))) (\<lambda>excerpt.
         bindE (defined (pick_ae quotePool_ae (seedBase + 11))) (\<lambda>quo.
         bindE (buildBody topic (seedBase + 13)) (\<lambda>body.
         let image = ''https://pub-cdn.sider.ai/u/U0AWH6J28LO/web-coder/6896d87314f019f2a83e5a14/resource/ab6ea90d-af37-40dd-879c-6732198db0be.jpg''
         in bindE (defined (pick_ae (extraTags topic) (seedBase + 29))) (\<lambda>extra.
            Inr \<lparr>c_id = aid, c_title = title, c_excerpt = excerpt, c_image = image,
                 c_tags = [humanLabel topic, ''daily'', extra], c_body = body, c_quote = quo,
                 c_topic = topic, c_dateISO = dateISO\<rparr>))))))"

text \<open>The card of \<open>ArticleCard.tsx\<close>; \<open>topic\<close> is optional there.\<close>

record Article =
  a_id :: string
  a_title :: string
  a_excerpt :: string
  a_image :: string
  a_tags :: "string list"
  a_path :: string
  a_topic :: "TopicKey option"

definition cardOf :: "ArticleCore \<Rightarrow> Article" where
  "cardOf core =
     \<lparr>a_id = c_id core, a_title = c_title core, a_excerpt = c_excerpt core,
      a_image = c_image core, a_tags = c_tags core, a_path = ''/articles/'' @ c_id core,
      a_topic = Some (c_topic core)\<rparr>"

text \<open>A loop body that may throw, run over a list; the first exception ends the loop.\<close>

fun mapE :: "('a \<Rightarrow> error + 'b) \<Rightarrow> 'a list \<Rightarrow> error + 'b list" where
  "mapE f [] = Inr []"
| "mapE f (x # xs) = bindE (f x) (\<lambda>y. bindE (mapE f xs) (\<lambda>ys. Inr (y # ys)))"

text \<open>
  \<open>topics.forEach(t => { for (let i = 1; i <= perTopic; i++) ... })\<close>: the pairs of a
  topic and an index in the order the loops visit them.
\<close>

definition listArticlesForDate :: "'d host \<Rightarrow> 'd \<Rightarrow> nat \<Rightarrow> error + Article list" where
  "listArticlesForDate H date perTopic =
     bindE (toISOString H date) (\<lambda>full.
       let dateISO = take 10 full
       in mapE (\<lambda>(t, i). bindE (generateArticleCore (m_key t) dateISO i) (\<lambda>core. Inr (cardOf core)))
            (concat (map (\<lambda>t. map (\<lambda>i. (t, i)) [1 ..< Suc perTopic]) topics)))"



section \<open>Local storage\<close>

text \<open>
  \<open>localStorage\<close> holds text under string keys. The code keeps three kinds of entry,
  under keys that cannot coincide: a cached reflection as JSON under
  \<open>ll-reflection:<date>:<theme>\<close>, the image overrides as JSON under
  \<open>ll-image-overrides:v1\<close>, and the site-wide image as plain text under
  \<open>ll-sitewide-image:v1\<close>. The model keeps one field for each kind and describes a JSON text
  by what \<open>JSON.parse\<close> makes of it; \<open>JSON.parse (JSON.stringify v)\<close> is \<open>v\<close> for the
  values written here (objects of strings and arrays of strings).
\<close>

datatype cached =
    EmptyText           \<comment> \<open>the empty string: \<open>!raw\<close> holds\<close>
  | Unparsable          \<comment> \<open>\<open>JSON.parse\<close> throws\<close>
  | FalsyJson           \<comment> \<open>parses to \<open>null\<close>, \<open>false\<close>, \<open>0\<close> or \<open>""\<close>\<close>
  | Entry Reflection    \<comment> \<open>parses to a reflection\<close>

datatype storedOverrides =
    OvEmptyText         \<comment> \<open>the empty string\<close>
  | OvUnparsable        \<comment> \<open>\<open>JSON.parse\<close> throws, or yields \<open>null\<close> so that \<open>parsed.topics\<close> throws\<close>
  | OvObject "(string \<rightharpoonup> string) option" "(string \<rightharpoonup> string) option"
      \<comment> \<open>an object, with its \<open>topics\<close> and \<open>articles\<close> fields where present\<close>

record storage =
  ls_available :: bool        \<comment> \<open>false when every access to \<open>localStorage\<close> throws\<close>
  ls_quotaExceeded :: bool    \<comment> \<open>true when \<open>setItem\<close> throws\<close>
  ls_reflections :: "string \<rightharpoonup> cached"
  ls_imageOverrides :: "storedOverrides option"
  ls_siteWide :: "string option"

definition getItem_reflection :: "storage \<Rightarrow> string \<Rightarrow> error + cached option" where
  "getItem_reflection st key =
     (if ls_available st then Inr (ls_reflections st key) else Inl StorageError)"

definition setItem_reflection :: "storage \<Rightarrow> string \<Rightarrow> Reflection \<Rightarrow> error + storage" where
  "setItem_reflection st key v =
     (if ls_available st \<and> \<not> ls_quotaExceeded st
      then Inr (st\<lparr>ls_reflections := (ls_reflections st)(key \<mapsto> Entry v)\<rparr>)
      else Inl StorageError)"

text \<open>\<open>getStoredReflection\<close>: every exception inside is caught and answered by \<open>null\<close>.\<close>

definition getStoredReflection :: "storage \<Rightarrow> string \<Rightarrow> Reflection option" where
  "getStoredReflection st key =
     (case getItem_reflection st key of
        Inl e \<Rightarrow> None
      | Inr None \<Rightarrow> None
      | Inr (Some EmptyText) \<Rightarrow> None
      | Inr (Some Unparsable) \<Rightarrow> None
      | Inr (Some FalsyJson) \<Rightarrow> None
      | Inr (Some (Entry r)) \<Rightarrow> Some r)"

text \<open>\<open>storeReflection\<close>: a failed write is ignored.\<close>

definition storeReflection :: "storage \<Rightarrow> string \<Rightarrow> Reflection \<Rightarrow> storage" where
  "storeReflection st key v =
     (case setItem_reflection st key v of Inl e \<Rightarrow> st | Inr st' \<Rightarrow> st')"

definition reflectionKey :: "string \<Rightarrow> ReflectionTheme \<Rightarrow> string" where
  "reflectionKey dateISO theme = ''ll-reflection:'' @ dateISO @ '':'' @ themeString theme"

text \<open>
  \<open>getReflectionForDate\<close> returns its result, or the exception that ended it, together
  with the storage it leaves.
\<close>

definition getReflectionForDate ::
  "'d host \<Rightarrow> pools \<Rightarrow> storage \<Rightarrow> 'd \<Rightarrow> ReflectionTheme \<Rightarrow> (error + Reflection) \<times> storage" where
  "getReflectionForDate H P st date theme =
     (case toISOString H date of
        Inl e \<Rightarrow> (Inl e, st)
      | Inr full \<Rightarrow>
          (let dateISO = take 10 full;
               key = reflectionKey dateISO theme
           in case getStoredReflection st key of
                Some existing \<Rightarrow> (Inr existing, st)
              | None \<Rightarrow>
                  (case generateReflection H P date theme of
                     Inl e \<Rightarrow> (Inl e, st)
                   | Inr generated \<Rightarrow> (Inr generated, storeReflection st key generated))))"

section \<open>newsletterDigest.ts\<close>

definition formatHumanDate :: "'d host \<Rightarrow> 'd \<Rightarrow> string" where
  "formatHumanDate H d = toLocaleDateString H d"

definition previousDays :: "'d host \<Rightarrow> 'd \<Rightarrow> nat \<Rightarrow> 'd list" where
  "previousDays H base count = map (\<lambda>i. daysBefore H base i) [0 ..< count]"

record Digest =
  d_subject :: string
  d_reflection :: Reflection
  d_articles :: "Article list"

definition buildDailyDigest ::
  "'d host \<Rightarrow> pools \<Rightarrow> storage \<Rightarrow> 'd \<Rightarrow> (error + Digest) \<times> storage" where
  "buildDailyDigest H P st date =
     (case getReflectionForDate H P st date Mindfulness of
        (Inl e, st') \<Rightarrow> (Inl e, st')
      | (Inr reflection, st') \<Rightarrow>
          (case listArticlesForDate H date 1 of
             Inl e \<Rightarrow> (Inl e, st')
           | Inr all \<Rightarrow>
               (let articles = take 3 all;
                    subject = ''Daily '' @ bullet @ '' '' @ formatHumanDate H date
                in (Inr \<lparr>d_subject = subject, d_reflection = reflection, d_articles = articles\<rparr>,
                    st'))))"

text \<open>\<open>arr[0]\<close>: \<open>undefined\<close> on the empty array.\<close>

definition first :: "'a list \<Rightarrow> 'a option" where
  "first arr = (case arr of [] \<Rightarrow> None | x # _ \<Rightarrow> Some x)"

text \<open>\<open>.filter(Boolean)\<close> on the highlights: the \<open>undefined\<close> ones go.\<close>

definition filterBoolean :: "'a option list \<Rightarrow> 'a list" where
  "filterBoolean xs = List.map_filter (\<lambda>x. x) xs"

definition buildWeeklyDigest ::
  "'d host \<Rightarrow> pools \<Rightarrow> storage \<Rightarrow> 'd \<Rightarrow> (error + Digest) \<times> storage" where
  "buildWeeklyDigest H P st endDate =
     (let days = previousDays H endDate 7
      in case getReflectionForDate H P st endDate FaithReason of
           (Inl e, st') \<Rightarrow> (Inl e, st')
         | (Inr reflection, st') \<Rightarrow>
             (case mapE (\<lambda>d. bindE (listArticlesForDate H d 1) (\<lambda>l. Inr (first l))) days of
                Inl e \<Rightarrow> (Inl e, st')
              | Inr highlights \<Rightarrow>
                  (let articles = take 7 (filterBoolean highlights);
                       weekRange = formatHumanDate H (days ! (length days - 1)) @ '' '' @ ndash
                                     @ '' '' @ formatHumanDate H (days ! 0);
                       subject = ''Weekly Digest '' @ bullet @ '' '' @ weekRange
                   in (Inr \<lparr>d_subject = subject, d_reflection = reflection,
                            d_articles = articles\<rparr>, st'))))"

section \<open>env.ts and config/images.ts\<close>

text \<open>The page's surroundings: the host name of \<open>window.location\<close>, or no \<open>window\<close>.\<close>

record env =
  hostname :: "string option"

text \<open>
  \<open>/^(localhost|127\.0\.0\.1)$/i\<close>: the flag \<open>i\<close> folds the ASCII letters only.
\<close>

definition lowerAscii :: "char \<Rightarrow> char" where
  "lowerAscii c =
     (let n = of_char c :: nat in if 65 \<le> n \<and> n \<le> 90 then char_of (n + 32) else c)"

definition isLocalHostname :: "string \<Rightarrow> bool" where
  "isLocalHostname h = (map lowerAscii h = ''localhost'' \<or> h = ''127.0.0.1'')"

definition IS_PUBLIC :: "env \<Rightarrow> bool" where
  "IS_PUBLIC E = (case hostname E of Some h \<Rightarrow> \<not> isLocalHostname h | None \<Rightarrow> True)"

record config =
  siteWideImageOverride :: "string option"
  topicDefaultImages :: "TopicKey \<rightharpoonup> string"
  articleDefaultImages :: "string \<rightharpoonup> string"

text \<open>The configuration the repository ships.\<close>

definition sourceConfig :: config where
  "sourceConfig =
    \<lparr>siteWideImageOverride = Some ''https://pub-cdn.sider.ai/u/U0AWH6J28LO/web-coder/6896d87314f019f2a83e5a14/resource/40a7f191-0501-4b2f-9f2f-478e08a0354e.png'',
     topicDefaultImages =
       [FaithAndReason \<mapsto> ''https://pub-cdn.sider.ai/u/U0AWH6J28LO/web-coder/6896d87314f019f2a83e5a14/resource/1165a6e5-d918-498f-a892-da02f7b9f33a.jpg'',
        Ethics \<mapsto> ''https://pub-cdn.sider.ai/u/U0AWH6J28LO/web-coder/6896d87314f019f2a83e5a14/resource/73f2a284-a52f-4bf1-bf95-3e39633111ca.jpg'',
        Metaphysics \<mapsto> ''https://pub-cdn.sider.ai/u/U0AWH6J28LO/web-coder/6896d87314f019f2a83e5a14/resource/af573bbf-31f8-442b-8503-451b73c6c684.jpg'',
        Theology \<mapsto> ''https://pub-cdn.sider.ai/u/U0AWH6J28LO/web-coder/6896d87314f019f2a83e5a14/resource/a43918b1-181b-4638-b410-ab48ccf35af3.jpg'',
        Scripture \<mapsto> ''https://pub-cdn.sider.ai/u/U0AWH6J28LO/web-coder/6896d87314f019f2a83e5a14/resource/e15f031d-3ed1-4ca3-8278-ad0baf2303a4.jpg'',
        Aesthetics \<mapsto> ''https://pub-cdn.sider.ai/u/U0AWH6J28LO/web-coder/6896d87314f019f2a83e5a14/resource/df1cf8b6-e235-4955-8670-5f8be3b3abbb.jpg'',
        History \<mapsto> ''https://pub-cdn.sider.ai/u/U0AWH6J28LO/web-coder/6896d87314f019f2a83e5a14/resource/1fd06e00-e387-4481-8236-f43db402e908.jpg'',
        Apologetics \<mapsto> ''https://pub-cdn.sider.ai/u/U0AWH6J28LO/web-coder/6896d87314f019f2a83e5a14/resource/329c538a-dc7f-4d23-9679-d5eff2ad8f2b.jpg''],
     articleDefaultImages = Map.empty\<rparr>"



section \<open>remoteImages.ts\<close>


text \<open>
  What the page's modules hold besides the constants: the storage, the events dispatched
  on \<open>window\<close> so far (oldest first), and the four module variables of
  \<open>remoteImages.ts\<close>.
\<close>

record world =
  w_storage :: storage
  w_events :: "string list"
  remoteTopicMap :: "string \<rightharpoonup> string"
  remoteArticleMap :: "string \<rightharpoonup> string"
  localTopicMap :: "string \<rightharpoonup> string"
  localArticleMap :: "string \<rightharpoonup> string"

definition getRemoteTopicImage :: "world \<Rightarrow> string \<Rightarrow> string option" where
  "getRemoteTopicImage w topicKey = nullish_or (localTopicMap w topicKey) (remoteTopicMap w topicKey)"

definition getRemoteArticleImage :: "world \<Rightarrow> string \<Rightarrow> string option" where
  "getRemoteArticleImage w aid = nullish_or (localArticleMap w aid) (remoteArticleMap w aid)"




text \<open>\<open>arr[i]\<close>: \<open>undefined\<close> past the end.\<close>

definition at :: "'a list \<Rightarrow> nat \<Rightarrow> 'a option" where
  "at arr i = (if i < length arr then Some (arr ! i) else None)"






section \<open>imageOverrides.ts\<close>

record ImageOverrides =
  ov_topics :: "string \<rightharpoonup> string"
  ov_articles :: "string \<rightharpoonup> string"

definition OV_EVENT :: string where
  "OV_EVENT = ''ll-image-overrides-changed''"

text \<open>\<open>window.dispatchEvent(new CustomEvent(name))\<close>.\<close>

definition dispatchEvent :: "env \<Rightarrow> world \<Rightarrow> string \<Rightarrow> error + world" where
  "dispatchEvent E w name =
     (case hostname E of
        None \<Rightarrow> Inl ReferenceError
      | Some h \<Rightarrow> Inr (w\<lparr>w_events := w_events w @ [name]\<rparr>))"

definition getSiteWideImageLocal :: "storage \<Rightarrow> string option" where
  "getSiteWideImageLocal st =
     (if \<not> ls_available st then None
      else case ls_siteWide st of
             None \<Rightarrow> None
           | Some v \<Rightarrow> if v \<noteq> [] \<and> trim v \<noteq> [] then Some (trim v) else None)"

text \<open>
  \<open>setSiteWideImage\<close>: one \<open>try\<close> around the write and the event, so a failed write also
  skips the event.
\<close>

definition setSiteWideImage :: "env \<Rightarrow> world \<Rightarrow> string option \<Rightarrow> world" where
  "setSiteWideImage E w src =
     (let st = w_storage w;
          written =
            (if truthy src \<and> trim (the_default [] src) \<noteq> []
             then (if ls_available st \<and> \<not> ls_quotaExceeded st
                   then Inr (st\<lparr>ls_siteWide := Some (trim (the_default [] src))\<rparr>)
                   else Inl StorageError)
             else (if ls_available st then Inr (st\<lparr>ls_siteWide := None\<rparr>) else Inl StorageError))
      in case written of
           Inl e \<Rightarrow> w
         | Inr st' \<Rightarrow>
             (case dispatchEvent E (w\<lparr>w_storage := st'\<rparr>) OV_EVENT of
                Inl e \<Rightarrow> w\<lparr>w_storage := st'\<rparr>
              | Inr w' \<Rightarrow> w'))"

definition getOverrides :: "storage \<Rightarrow> ImageOverrides" where
  "getOverrides st =
     (let none = \<lparr>ov_topics = Map.empty, ov_articles = Map.empty\<rparr>
      in if \<not> ls_available st then none
         else case ls_imageOverrides st of
                None \<Rightarrow> none
              | Some OvEmptyText \<Rightarrow> none
              | Some OvUnparsable \<Rightarrow> none
              | Some (OvObject ts as) \<Rightarrow>
                  \<lparr>ov_topics = (case ts of None \<Rightarrow> Map.empty | Some m \<Rightarrow> m),
                   ov_articles = (case as of None \<Rightarrow> Map.empty | Some m \<Rightarrow> m)\<rparr>)"

definition saveOverrides :: "env \<Rightarrow> world \<Rightarrow> ImageOverrides \<Rightarrow> world" where
  "saveOverrides E w nxt =
     (let st = w_storage w;
          st' = (if ls_available st \<and> \<not> ls_quotaExceeded st
                 then st\<lparr>ls_imageOverrides := Some (OvObject (Some (ov_topics nxt)) (Some (ov_articles nxt)))\<rparr>
                 else st);
          w' = w\<lparr>w_storage := st'\<rparr>
      in case dispatchEvent E w' OV_EVENT of Inl e \<Rightarrow> w' | Inr w'' \<Rightarrow> w'')"

definition resolveTopicDefault :: "config \<Rightarrow> TopicKey \<Rightarrow> string \<Rightarrow> string" where
  "resolveTopicDefault C topic fallback =
     (let byCode = topicDefaultImages C topic
      in if truthy byCode then the_default [] byCode else fallback)"

definition resolveArticleDefault :: "config \<Rightarrow> string \<Rightarrow> string \<Rightarrow> TopicKey option \<Rightarrow> string" where
  "resolveArticleDefault C aid fallback topicKey =
     (let byArticle = articleDefaultImages C aid
      in if truthy byArticle then the_default [] byArticle
         else case topicKey of
                Some t \<Rightarrow> if truthy (topicDefaultImages C t)
                          then the_default [] (topicDefaultImages C t) else fallback
              | None \<Rightarrow> fallback)"

definition setTopicImage :: "env \<Rightarrow> world \<Rightarrow> TopicKey \<Rightarrow> string option \<Rightarrow> world" where
  "setTopicImage E w topic src =
     (if IS_PUBLIC E then w
      else let ov = getOverrides (w_storage w);
               ov' = (if truthy src \<and> trim (the_default [] src) \<noteq> []
                      then ov\<lparr>ov_topics := (ov_topics ov)(topicKeyString topic \<mapsto> trim (the_default [] src))\<rparr>
                      else ov\<lparr>ov_topics := (ov_topics ov)(topicKeyString topic := None)\<rparr>)
           in saveOverrides E w ov')"

definition setArticleImage :: "env \<Rightarrow> world \<Rightarrow> string \<Rightarrow> string option \<Rightarrow> world" where
  "setArticleImage E w aid src =
     (if IS_PUBLIC E then w
      else let ov = getOverrides (w_storage w);
               ov' = (if truthy src \<and> trim (the_default [] src) \<noteq> []
                      then ov\<lparr>ov_articles := (ov_articles ov)(aid \<mapsto> trim (the_default [] src))\<rparr>
                      else ov\<lparr>ov_articles := (ov_articles ov)(aid := None)\<rparr>)
           in saveOverrides E w ov')"

definition getTopicImage :: "env \<Rightarrow> config \<Rightarrow> world \<Rightarrow> TopicKey \<Rightarrow> string \<Rightarrow> string" where
  "getTopicImage E C w topic defaultSrc =
     (let siteWide = or_else (siteWideImageOverride C) (getSiteWideImageLocal (w_storage w))
      in if truthy siteWide then the_default [] siteWide
         else if IS_PUBLIC E then
           (let r = getRemoteTopicImage w (topicKeyString topic)
            in if truthy r then the_default [] r
               else resolveTopicDefault C topic defaultSrc)
         else
           (let ov = getOverrides (w_storage w);
                fromOverride = ov_topics ov (topicKeyString topic)
            in if truthy fromOverride then the_default [] fromOverride
               else let r = getRemoteTopicImage w (topicKeyString topic)
                    in if truthy r then the_default [] r
                       else resolveTopicDefault C topic defaultSrc))"

definition getArticleImage ::
  "env \<Rightarrow> config \<Rightarrow> world \<Rightarrow> string \<Rightarrow> string \<Rightarrow> TopicKey option \<Rightarrow> string" where
  "getArticleImage E C w aid defaultSrc topicKey =
     (let siteWide = or_else (siteWideImageOverride C) (getSiteWideImageLocal (w_storage w));
          remoteTopic = (case topicKey of
                           Some t \<Rightarrow> getRemoteTopicImage w (topicKeyString t) | None \<Rightarrow> None);
          codeTopic = (case topicKey of Some t \<Rightarrow> topicDefaultImages C t | None \<Rightarrow> None)
      in if truthy siteWide then the_default [] siteWide
         else if IS_PUBLIC E then
           (let ra = getRemoteArticleImage w aid
            in if truthy ra then the_default [] ra
               else if truthy remoteTopic then the_default [] remoteTopic
               else let byArticle = articleDefaultImages C aid
                    in if truthy byArticle then the_default [] byArticle
                       else if defaultSrc \<noteq> [] then defaultSrc
                       else if truthy codeTopic then the_default [] codeTopic
                       else defaultSrc)
         else
           (let ov = getOverrides (w_storage w);
                ovTopic = (case topicKey of
                             Some t \<Rightarrow> ov_topics ov (topicKeyString t) | None \<Rightarrow> None)
            in if truthy (ov_articles ov aid) then the_default [] (ov_articles ov aid)
               else if truthy ovTopic then the_default [] ovTopic
               else let ra = getRemoteArticleImage w aid
                    in if truthy ra then the_default [] ra
                       else if truthy remoteTopic then the_default [] remoteTopic
                       else resolveArticleDefault C aid defaultSrc topicKey))"

definition getAllOverrides :: "env \<Rightarrow> world \<Rightarrow> ImageOverrides" where
  "getAllOverrides E w =
     (if IS_PUBLIC E then \<lparr>ov_topics = Map.empty, ov_articles = Map.empty\<rparr>
      else getOverrides (w_storage w))"



section \<open>Sample surroundings for concrete evaluation\<close>

text \<open>
  A host whose date objects are the days of January 2025 at noon UTC, numbered from 0;
  a number from 31 on stands for an invalid date.
\<close>

definition pad2 :: "nat \<Rightarrow> string" where
  "pad2 n = (if n < 10 then ''0'' @ numberToString n else numberToString n)"

definition januaryHost :: "nat host" where
  "januaryHost =
    \<lparr>toISOString = (\<lambda>d. if d < 31 then Inr (''2025-01-'' @ pad2 (d + 1) @ ''T12:00:00.000Z'')
                          else Inl RangeError),
     daysBefore = (\<lambda>d i. d - i),
     toLocaleDateString = (\<lambda>d. ''Jan '' @ numberToString (d + 1) @ '', 2025'')\<rparr>"

definition emptyStorage :: storage where
  "emptyStorage =
    \<lparr>ls_available = True, ls_quotaExceeded = False, ls_reflections = Map.empty,
     ls_imageOverrides = None, ls_siteWide = None\<rparr>"

definition emptyWorld :: world where
  "emptyWorld =
    \<lparr>w_storage = emptyStorage, w_events = [], remoteTopicMap = Map.empty,
     remoteArticleMap = Map.empty, localTopicMap = Map.empty, localArticleMap = Map.empty\<rparr>"

definition publicEnv :: env where
  "publicEnv = \<lparr>hostname = Some ''www.logosandlight.org''\<rparr>"

definition localEnv :: env where
  "localEnv = \<lparr>hostname = Some ''localhost''\<rparr>"

definition configNoSiteWide :: config where
  "configNoSiteWide = sourceConfig\<lparr>siteWideImageOverride := None\<rparr>"

definition sampleReflection :: Reflection where
  "sampleReflection =
    \<lparr>r_dateISO = ''2025-01-01'', r_theme = Mindfulness, r_title = ''Be Still and Know'',
     r_scripture = \<lparr>s_text = ''Pray without ceasing.'', s_ref = ''1 Thessalonians 5:17''\<rparr>,
     r_quote = \<lparr>q_text = ''Faith seeks understanding.'', q_author = ''Anselm''\<rparr>,
     r_body = [''An earlier body.''], r_prayer = ''An earlier prayer.'',
     r_questions = [''An earlier question?''],
     r_tags = [''mindfulness in Christ'', ''daily'', ''reflection'']\<rparr>"

definition cachedStorage :: storage where
  "cachedStorage =
     emptyStorage\<lparr>ls_reflections := [''ll-reflection:2025-01-01:mindfulness'' \<mapsto> Entry sampleReflection]\<rparr>"

definition changedPools :: pools where
  "changedPools = sourcePools\<lparr>p_questionsPool := [''A new question?'']\<rparr>"

definition siteWideWorld :: world where
  "siteWideWorld = emptyWorld\<lparr>w_storage := emptyStorage\<lparr>ls_siteWide := Some '' https://x/site.png ''\<rparr>\<rparr>"










section \<open>Characters and digits\<close>

lemma char_of_nat_eq: "n < 256 \<Longrightarrow> (char_of (n::nat) = c) = (n = of_char c)"
  by (simp add: char_of_eq_iff take_bit_nat_eq_self)

section \<open>The hash\<close>

lemma hash_empty: "hash [] = 2166136261"
  by (simp add: hash_def)

lemma hash_bound: "hash str \<le> 2166136261"
proof (cases str rule: rev_cases)
  case Nil
  then show ?thesis by (simp add: hash_def)
next
  case (snoc cs c)
  define w :: "32 word" where "w = (word_of_int (fold hash_step cs 2166136261) XOR of_char c) * 16777619"
  have "- (2 ^ 31) \<le> sint w" and "sint w < 2 ^ 31"
    using sint_ge [of w] sint_lt [of w] by simp_all
  then have "\<bar>sint w\<bar> \<le> 2 ^ 31"
    by simp
  then show ?thesis
    by (simp add: hash_def snoc hash_step_def w_def)
qed

section \<open>The two \<open>pick\<close> functions\<close>

lemma pick_nonempty: "arr \<noteq> [] \<Longrightarrow> pick arr seed = Inr (arr ! (seed mod length arr))"
  by (simp add: pick_def)

lemma pick_empty: "pick [] seed = Inl EmptyPick"
  by (simp add: pick_def)

lemma pick_ae_nonempty: "arr \<noteq> [] \<Longrightarrow> pick_ae arr seed = Some (arr ! (seed mod length arr))"
  by (simp add: pick_ae_def)

lemma pick_ae_never_fails: "defined (pick_ae arr seed) \<noteq> Inl EmptyPick"
  by (simp add: pick_ae_def defined_def)


section \<open>The questions of a reflection\<close>

lemma firstOccurrences_pair: "firstOccurrences [a, b] = (if a = b then [a] else [a, b])"
  by (simp add: firstOccurrences_def upt_rec)

lemma titleFragments_nonempty: "titleFragments t \<noteq> []"
  by (cases t) simp_all

lemma hash_jan1_mindfulness: "hash ''2025-01-01|mindfulness'' = 1821275394"
  by (simp add: hash_def hash_step_def)

lemma januaryHost_iso0: "toISOString januaryHost 0 = Inr ''2025-01-01T12:00:00.000Z''"
  by (simp add: januaryHost_def pad2_def numberToString.simps char_of_nat_eq)

text \<open>
  C10. For every (valid) date and every theme, \<open>generateReflection\<close> returns a reflection
  whose questions are the two seeded picks from the questions pool with the second
  dropped when it repeats the first: the list has no duplicate and has length 1 or 2,
  and a single element when both picks select the same question.
\<close>

theorem generateReflection_questions:
  assumes "toISOString H d = Inr full"
  shows "\<exists>r. generateReflection H sourcePools d t = Inr r
           \<and> r_questions r =
               (let seed = hash (take 10 full @ ''|'' @ themeString t);
                    q1 = questionsPool ! ((seed + 19) mod length questionsPool);
                    q2 = questionsPool ! ((seed + 23) mod length questionsPool)
                in if q1 = q2 then [q1] else [q1, q2])
           \<and> distinct (r_questions r)
           \<and> (length (r_questions r) = 1 \<or> length (r_questions r) = 2)"
  using assms titleFragments_nonempty [of t]
  by (simp add: generateReflection_def bindE_def sourcePools_def Let_def pick_def
      scripturePool_def quotePool_def prayers_def questionsPool_def firstOccurrences_pair)

theorem generateReflection_questions_witness:
  "toISOString januaryHost 0 = Inr ''2025-01-01T12:00:00.000Z''
   \<and> (\<exists>r. generateReflection januaryHost sourcePools 0 Mindfulness = Inr r
          \<and> r_questions r = [''What stirred anxiety, and how might I bring it to prayer?'']
          \<and> distinct (r_questions r)
          \<and> (length (r_questions r) = 1 \<or> length (r_questions r) = 2))"
  using generateReflection_questions [OF januaryHost_iso0, of Mindfulness]
  by (simp add: januaryHost_iso0 hash_jan1_mindfulness questionsPool_def)

text \<open>
  With the pool of four questions the source has, the offsets 19 and 23 select the same
  index, so the list always has exactly one question.
\<close>

lemma generateReflection_single_question:
  assumes "generateReflection H sourcePools d t = Inr r"
  shows "length (r_questions r) = 1"
proof -
  obtain full where full: "toISOString H d = Inr full"
    using assms by (cases "toISOString H d") (simp_all add: generateReflection_def bindE_def)
  have same: "(seed + 23) mod 4 = (seed + 19) mod (4::nat)" for seed
    by presburger
  show ?thesis
    using assms full titleFragments_nonempty [of t]
    by (auto simp add: generateReflection_def bindE_def sourcePools_def Let_def pick_def
        scripturePool_def quotePool_def prayers_def questionsPool_def firstOccurrences_pair same)
qed



section \<open>The body of an article\<close>

lemma rotate_arr_eq: "rotate_arr arr seed = rotate seed arr"
  by (simp add: rotate_arr_def Let_def rotate_drop_take)

lemma paragraphs_length: "6 \<le> length (paragraphsByTopic topic)"
  by (cases topic) simp_all

lemma paragraphs_distinct: "distinct (paragraphsByTopic topic)"
proof -
  have "distinct (map (take 7) (paragraphsByTopic topic))"
    by (cases topic) simp_all
  then show ?thesis
    by (simp add: distinct_map)
qed

lemma scriptureByTopic_nonempty: "scriptureByTopic topic \<noteq> []"
  by (cases topic) simp_all

lemma practiceByTopic_nonempty: "practiceByTopic topic \<noteq> []"
  by (cases topic) simp_all

lemma sampleDeterministic_take:
  "count < length arr \<Longrightarrow> sampleDeterministic arr count seed = take count (rotate seed arr)"
  by (auto simp add: sampleDeterministic_def rotate_arr_eq Let_def)

lemma buildBody_eq:
  "buildBody topic seed =
     Inr (take (3 + seed mod 2) (rotate (seed + 101) (paragraphsByTopic topic))
          @ [generalConnective ! ((seed + 307) mod length generalConnective),
             ''Scripture: '' @ ldquo
               @ s_text (scriptureByTopic topic ! ((seed + 211) mod length (scriptureByTopic topic)))
               @ rdquo @ '' (''
               @ s_ref (scriptureByTopic topic ! ((seed + 211) mod length (scriptureByTopic topic)))
               @ '').'',
             practiceByTopic topic ! ((seed + 409) mod length (practiceByTopic topic))])"
proof -
  have "3 + seed mod 2 < length (paragraphsByTopic topic)"
    using paragraphs_length [of topic] by (simp add: less_le_trans [of _ 6])
  then show ?thesis
    using scriptureByTopic_nonempty [of topic] practiceByTopic_nonempty [of topic]
    by (simp add: buildBody_def Let_def bindE_def defined_def pick_ae_def
        sampleDeterministic_take generalConnective_def)
qed

text \<open>
  C7. For every registered topic and every seed the body of an article is built from
  \<open>3 + seed mod 2\<close> paragraphs sampled without repetition from the pool of the topic
  (a count between 3 and 6), followed at fixed positions by one connective paragraph,
  the scripture line and, last, one practice paragraph.
\<close>

theorem buildBody_shape:
  "\<exists>body core.
     buildBody topic seed = Inr body
     \<and> core = sampleDeterministic (paragraphsByTopic topic) (3 + seed mod 2) (seed + 101)
     \<and> length core = 3 + seed mod 2 \<and> 3 \<le> length core \<and> length core \<le> 6
     \<and> distinct core \<and> set core \<subseteq> set (paragraphsByTopic topic)
     \<and> length body = length core + 3
     \<and> take (length core) body = core
     \<and> body ! length core = generalConnective ! ((seed + 307) mod length generalConnective)
     \<and> last body = practiceByTopic topic ! ((seed + 409) mod length (practiceByTopic topic))"
proof -
  have lt: "3 + seed mod 2 < length (paragraphsByTopic topic)"
    using paragraphs_length [of topic] by (simp add: less_le_trans [of _ 6])
  define core where "core = take (3 + seed mod 2) (rotate (seed + 101) (paragraphsByTopic topic))"
  have sd: "sampleDeterministic (paragraphsByTopic topic) (3 + seed mod 2) (seed + 101) = core"
    using lt by (simp add: sampleDeterministic_take core_def)
  have len: "length core = 3 + seed mod 2"
    using lt by (simp add: core_def)
  have dist: "distinct core"
    by (simp add: core_def paragraphs_distinct)
  have sub: "set core \<subseteq> set (paragraphsByTopic topic)"
    using set_take_subset [of "3 + seed mod 2" "rotate (seed + 101) (paragraphsByTopic topic)"]
    by (simp add: core_def)
  show ?thesis
    unfolding buildBody_eq sd
    using len dist sub
    by (simp add: core_def [symmetric] nth_append)
qed

section \<open>Writing image overrides\<close>

lemma IS_PUBLIC_publicEnv: "IS_PUBLIC publicEnv"
  by (simp add: IS_PUBLIC_def publicEnv_def isLocalHostname_def)

lemma IS_PUBLIC_localEnv: "\<not> IS_PUBLIC localEnv"
  by (simp add: IS_PUBLIC_def localEnv_def isLocalHostname_def lowerAscii_def char_of_nat_eq)

text \<open>
  C9. In the public context \<open>setTopicImage\<close> and \<open>setArticleImage\<close> do nothing, whatever
  the key and the value (\<open>null\<close> included): the storage, and with it the two override
  maps, is the same after the call as before, and no event has been dispatched.
\<close>

theorem setImage_public_noop:
  assumes "IS_PUBLIC E"
  shows "setTopicImage E w topic src = w \<and> setArticleImage E w aid src = w
         \<and> getOverrides (w_storage (setTopicImage E w topic src)) = getOverrides (w_storage w)
         \<and> getOverrides (w_storage (setArticleImage E w aid src)) = getOverrides (w_storage w)
         \<and> w_events (setTopicImage E w topic src) = w_events w
         \<and> w_events (setArticleImage E w aid src) = w_events w"
  using assms by (simp add: setTopicImage_def setArticleImage_def)

theorem setImage_public_noop_witness:
  "IS_PUBLIC publicEnv
   \<and> setTopicImage publicEnv emptyWorld Ethics (Some ''https://x/y.jpg'') = emptyWorld
   \<and> setArticleImage publicEnv emptyWorld ''ethics-20250811-1'' None = emptyWorld"
  using setImage_public_noop [OF IS_PUBLIC_publicEnv, of emptyWorld]
  by (simp add: IS_PUBLIC_publicEnv)

text \<open>On \<open>localhost\<close> the same call does write, and dispatches the event.\<close>

lemma hostname_localEnv: "hostname localEnv = Some ''localhost''"
  by (simp add: localEnv_def)

lemma setTopicImage_local_writes:
  "ov_topics (getOverrides (w_storage (setTopicImage localEnv emptyWorld Ethics (Some ''https://x/y.jpg''))))
     ''ethics'' = Some ''https://x/y.jpg''
   \<and> w_events (setTopicImage localEnv emptyWorld Ethics (Some ''https://x/y.jpg'')) = [OV_EVENT]"
  by (simp add: setTopicImage_def IS_PUBLIC_localEnv getOverrides_def emptyWorld_def
      emptyStorage_def saveOverrides_def dispatchEvent_def hostname_localEnv Let_def truthy_def
      the_default_def trim_def isSpace_def)



section \<open>Resolving images\<close>

lemma trim_Nil: "trim [] = []"
  by (simp add: trim_def)

lemma truthy_simps: "truthy None = False" "truthy (Some s) = (s \<noteq> [])"
  by (simp_all add: truthy_def)

lemma the_default_Some: "the_default d (Some x) = x"
  by (simp add: the_default_def)

lemma siteWide_short_circuit:
  assumes "or_else (siteWideImageOverride C) (getSiteWideImageLocal (w_storage w)) = Some v"
      and "v \<noteq> []"
  shows "getTopicImage E C w topic defaultSrc = v"
    and "getArticleImage E C w aid defaultSrc topicKey = v"
  using assms
  by (simp_all add: getTopicImage_def getArticleImage_def Let_def truthy_simps the_default_Some)

lemma siteWide_sourceConfig:
  "siteWideImageOverride sourceConfig = Some ''https://pub-cdn.sider.ai/u/U0AWH6J28LO/web-coder/6896d87314f019f2a83e5a14/resource/40a7f191-0501-4b2f-9f2f-478e08a0354e.png''"
  by (simp add: sourceConfig_def)

lemma siteWide_configNoSiteWide: "siteWideImageOverride configNoSiteWide = None"
  by (simp add: configNoSiteWide_def)

lemma articleDefault_configNoSiteWide: "articleDefaultImages configNoSiteWide aid = None"
  by (simp add: configNoSiteWide_def sourceConfig_def)

lemma topicDefault_configNoSiteWide_Ethics:
  "topicDefaultImages configNoSiteWide Ethics = Some ''https://pub-cdn.sider.ai/u/U0AWH6J28LO/web-coder/6896d87314f019f2a83e5a14/resource/73f2a284-a52f-4bf1-bf95-3e39633111ca.jpg''"
  by (simp add: configNoSiteWide_def sourceConfig_def)

lemma getSiteWideImageLocal_emptyWorld: "getSiteWideImageLocal (w_storage emptyWorld) = None"
  by (simp add: getSiteWideImageLocal_def emptyWorld_def emptyStorage_def)

lemma remote_emptyWorld:
  "getRemoteArticleImage emptyWorld aid = None" "getRemoteTopicImage emptyWorld k = None"
  by (simp_all add: getRemoteArticleImage_def getRemoteTopicImage_def emptyWorld_def nullish_or_def)

lemma siteWideWorld_storage:
  "ls_available (w_storage siteWideWorld)"
  "ls_siteWide (w_storage siteWideWorld) = Some '' https://x/site.png ''"
  by (simp_all add: siteWideWorld_def emptyStorage_def)

lemma trim_sample: "trim '' https://x/site.png '' = ''https://x/site.png''"
  by (simp add: trim_def isSpace_def)

text \<open>
  C1. Whenever the site-wide override is non-empty, \<open>getTopicImage\<close> and \<open>getArticleImage\<close>
  return exactly that override, for every topic key and article id, in the public and in
  the local context, whatever the remote maps, the local overrides, the code defaults
  and the generated default hold. The override is the configuration constant when that
  is non-empty, and otherwise the value stored locally, read as \<open>getSiteWideImageLocal\<close>
  reads it: with the white space around it removed, and set only if something remains.
\<close>

theorem siteWide_override_wins:
  assumes "(siteWideImageOverride C = Some v \<and> v \<noteq> [])
         \<or> (\<not> truthy (siteWideImageOverride C) \<and> ls_available (w_storage w)
            \<and> ls_siteWide (w_storage w) = Some s \<and> trim s \<noteq> [] \<and> v = trim s)"
  shows "getTopicImage E C w topic defaultSrc = v
       \<and> getArticleImage E C w aid defaultSrc topicKey = v"
proof -
  have sw: "or_else (siteWideImageOverride C) (getSiteWideImageLocal (w_storage w)) = Some v \<and> v \<noteq> []"
    using assms
  proof
    assume "siteWideImageOverride C = Some v \<and> v \<noteq> []"
    then show ?thesis by (simp add: or_else_def truthy_simps)
  next
    assume loc: "\<not> truthy (siteWideImageOverride C) \<and> ls_available (w_storage w)
            \<and> ls_siteWide (w_storage w) = Some s \<and> trim s \<noteq> [] \<and> v = trim s"
    then have "s \<noteq> []" using trim_Nil by auto
    with loc show ?thesis by (simp add: or_else_def getSiteWideImageLocal_def)
  qed
  then show ?thesis
    by (simp add: siteWide_short_circuit)
qed

theorem siteWide_override_wins_witness:
  "getTopicImage publicEnv sourceConfig emptyWorld Ethics ''https://gen/1.jpg''
     = ''https://pub-cdn.sider.ai/u/U0AWH6J28LO/web-coder/6896d87314f019f2a83e5a14/resource/40a7f191-0501-4b2f-9f2f-478e08a0354e.png''
   \<and> getArticleImage localEnv configNoSiteWide siteWideWorld
        ''ethics-20250811-1'' ''https://gen/1.jpg'' (Some Ethics)
     = ''https://x/site.png''"
  using siteWide_override_wins [of sourceConfig
        "''https://pub-cdn.sider.ai/u/U0AWH6J28LO/web-coder/6896d87314f019f2a83e5a14/resource/40a7f191-0501-4b2f-9f2f-478e08a0354e.png''"
        emptyWorld "[]" publicEnv Ethics "''https://gen/1.jpg''" "[]" None]
      siteWide_override_wins [of configNoSiteWide "''https://x/site.png''"
        siteWideWorld "'' https://x/site.png ''" localEnv Ethics "''https://gen/1.jpg''"
        "''ethics-20250811-1''" "Some Ethics"]
  by (simp add: trim_sample siteWideWorld_storage siteWide_sourceConfig siteWide_configNoSiteWide truthy_simps)

lemma dropWhile_id: "xs = [] \<or> \<not> P (hd xs) \<Longrightarrow> dropWhile P xs = xs"
  by (cases xs) auto

lemma dropWhile_head: "dropWhile P xs = [] \<or> \<not> P (hd (dropWhile P xs))"
  using hd_dropWhile [of P xs] by blast

lemma trim_idem: "trim (trim s) = trim s"
proof -
  define u where "u = dropWhile isSpace s"
  define v where "v = dropWhile isSpace (rev u)"
  have t: "trim s = rev v"
    by (simp add: trim_def u_def v_def)
  have hv: "v = [] \<or> \<not> isSpace (hd v)"
    unfolding v_def by (rule dropWhile_head)
  have hu: "u = [] \<or> \<not> isSpace (hd u)"
    unfolding u_def by (rule dropWhile_head)
  have front: "rev v = [] \<or> \<not> isSpace (hd (rev v))"
  proof (cases "v = []")
    case True
    then show ?thesis by simp
  next
    case False
    have "rev u = takeWhile isSpace (rev u) @ v"
      by (simp add: v_def)
    then have "last (rev u) = last v"
      using False by (metis last_appendR)
    moreover have "u \<noteq> []"
      using False by (auto simp add: v_def)
    ultimately have "hd u = last v"
      by (simp add: last_rev)
    with hu \<open>u \<noteq> []\<close> False show ?thesis
      by (simp add: hd_rev)
  qed
  have "dropWhile isSpace (rev v) = rev v"
    using front by (rule dropWhile_id)
  moreover have "dropWhile isSpace v = v"
    using hv by (rule dropWhile_id)
  ultimately show ?thesis
    by (simp add: t) (simp add: trim_def)
qed

lemma setSiteWideImage_stored:
  assumes "ls_available (w_storage w)" and "\<not> ls_quotaExceeded (w_storage w)" and "trim s \<noteq> []"
  shows "ls_siteWide (w_storage (setSiteWideImage E w (Some s))) = Some (trim s)"
    and "ls_available (w_storage (setSiteWideImage E w (Some s)))"
  using assms trim_Nil
  by (auto simp add: setSiteWideImage_def Let_def truthy_simps the_default_Some dispatchEvent_def
      split: option.splits)

text \<open>
  What \<open>setSiteWideImage\<close> stores is already trimmed and not blank, so a site-wide value
  stored through it is returned by both functions exactly as it is stored.
\<close>

lemma siteWide_stored_value_returned:
  assumes "\<not> truthy (siteWideImageOverride C)"
      and "ls_available (w_storage w)" and "\<not> ls_quotaExceeded (w_storage w)" and "trim s \<noteq> []"
      and "w' = setSiteWideImage E w (Some s)"
  shows "getTopicImage E' C w' topic defaultSrc = the_default [] (ls_siteWide (w_storage w'))
       \<and> getArticleImage E' C w' aid defaultSrc topicKey = the_default [] (ls_siteWide (w_storage w'))"
proof -
  have st: "ls_siteWide (w_storage w') = Some (trim s)" "ls_available (w_storage w')"
    using setSiteWideImage_stored [OF assms(2,3,4)] assms(5) by simp_all
  have "or_else (siteWideImageOverride C) (getSiteWideImageLocal (w_storage w')) = Some (trim s)"
    using assms(1,4) st trim_Nil
    by (auto simp add: or_else_def getSiteWideImageLocal_def trim_idem)
  then show ?thesis
    using assms(4) by (simp add: siteWide_short_circuit st the_default_Some)
qed

text \<open>
  C2 as stated: in the public context, with the site-wide override unset, an article
  with no remote entry and no code default of its own, but with a code default for its
  topic, gets the code default of the topic rather than the generated default. The code
  returns the generated default: with the topic defaults the repository ships, an ethics
  article resolves to its generated image.
\<close>

theorem getArticleImage_public_counterexample:
  "IS_PUBLIC publicEnv
   \<and> siteWideImageOverride configNoSiteWide = None
   \<and> getSiteWideImageLocal (w_storage emptyWorld) = None
   \<and> getRemoteArticleImage emptyWorld ''ethics-20250811-1'' = None
   \<and> getRemoteTopicImage emptyWorld ''ethics'' = None
   \<and> articleDefaultImages configNoSiteWide ''ethics-20250811-1'' = None
   \<and> topicDefaultImages configNoSiteWide Ethics
       = Some ''https://pub-cdn.sider.ai/u/U0AWH6J28LO/web-coder/6896d87314f019f2a83e5a14/resource/73f2a284-a52f-4bf1-bf95-3e39633111ca.jpg''
   \<and> getArticleImage publicEnv configNoSiteWide emptyWorld ''ethics-20250811-1''
        ''https://pub-cdn.sider.ai/u/U0AWH6J28LO/web-coder/6896d87314f019f2a83e5a14/resource/ab6ea90d-af37-40dd-879c-6732198db0be.jpg''
        (Some Ethics)
       = ''https://pub-cdn.sider.ai/u/U0AWH6J28LO/web-coder/6896d87314f019f2a83e5a14/resource/ab6ea90d-af37-40dd-879c-6732198db0be.jpg''
   \<and> getArticleImage publicEnv configNoSiteWide emptyWorld ''ethics-20250811-1''
        ''https://pub-cdn.sider.ai/u/U0AWH6J28LO/web-coder/6896d87314f019f2a83e5a14/resource/ab6ea90d-af37-40dd-879c-6732198db0be.jpg''
        (Some Ethics)
       \<noteq> ''https://pub-cdn.sider.ai/u/U0AWH6J28LO/web-coder/6896d87314f019f2a83e5a14/resource/73f2a284-a52f-4bf1-bf95-3e39633111ca.jpg''"
  by (simp add: IS_PUBLIC_publicEnv getArticleImage_def siteWide_configNoSiteWide
      articleDefault_configNoSiteWide topicDefault_configNoSiteWide_Ethics
      getSiteWideImageLocal_emptyWorld remote_emptyWorld or_else_def truthy_simps
      the_default_Some Let_def)

text \<open>
  C2 as amended: in the public context, with the site-wide override unset,
  \<open>getArticleImage\<close> resolves in the order remote article mapping, remote topic mapping,
  code default of the article, generated default, code default of the topic. The code
  default of the topic is returned only when the generated default is empty; when all
  five are missing the result is the empty generated default.
\<close>

theorem getArticleImage_public_order:
  assumes "IS_PUBLIC E"
      and "\<not> truthy (siteWideImageOverride C)"
      and "getSiteWideImageLocal (w_storage w) = None"
  shows "getArticleImage E C w aid defaultSrc topicKey =
     (let ra = getRemoteArticleImage w aid;
          rt = (case topicKey of Some t \<Rightarrow> getRemoteTopicImage w (topicKeyString t) | None \<Rightarrow> None);
          ca = articleDefaultImages C aid;
          ct = (case topicKey of Some t \<Rightarrow> topicDefaultImages C t | None \<Rightarrow> None)
      in if truthy ra then the_default [] ra
         else if truthy rt then the_default [] rt
         else if truthy ca then the_default [] ca
         else if defaultSrc \<noteq> [] then defaultSrc
         else if truthy ct then the_default [] ct
         else [])"
  using assms
  by (simp add: getArticleImage_def or_else_def Let_def truthy_simps)

theorem getArticleImage_public_order_witness:
  "IS_PUBLIC publicEnv \<and> \<not> truthy (siteWideImageOverride configNoSiteWide)
   \<and> getSiteWideImageLocal (w_storage emptyWorld) = None
   \<and> getArticleImage publicEnv configNoSiteWide emptyWorld ''ethics-20250811-1'' ''https://gen/1.jpg'' (Some Ethics)
       = ''https://gen/1.jpg''
   \<and> getArticleImage publicEnv configNoSiteWide emptyWorld ''ethics-20250811-1'' [] (Some Ethics)
       = ''https://pub-cdn.sider.ai/u/U0AWH6J28LO/web-coder/6896d87314f019f2a83e5a14/resource/73f2a284-a52f-4bf1-bf95-3e39633111ca.jpg''"
proof -
  have a: "\<not> truthy (siteWideImageOverride configNoSiteWide)"
    by (simp add: siteWide_configNoSiteWide truthy_simps)
  show ?thesis
    using getArticleImage_public_order [OF IS_PUBLIC_publicEnv a getSiteWideImageLocal_emptyWorld,
        of "''ethics-20250811-1''" "''https://gen/1.jpg''" "Some Ethics"]
      getArticleImage_public_order [OF IS_PUBLIC_publicEnv a getSiteWideImageLocal_emptyWorld,
        of "''ethics-20250811-1''" "[]" "Some Ethics"]
    by (simp add: IS_PUBLIC_publicEnv siteWide_configNoSiteWide getSiteWideImageLocal_emptyWorld
        remote_emptyWorld articleDefault_configNoSiteWide topicDefault_configNoSiteWide_Ethics
        truthy_simps the_default_Some)
qed

section \<open>The reflection cache\<close>

lemma getItem_cachedStorage:
  "getItem_reflection cachedStorage (reflectionKey (take 10 ''2025-01-01T12:00:00.000Z'') Mindfulness)
     = Inr (Some (Entry sampleReflection))"
  by (simp add: getItem_reflection_def cachedStorage_def emptyStorage_def reflectionKey_def)

text \<open>
  C3. When a reflection is stored under the cache key of the date and the theme,
  \<open>getReflectionForDate\<close> returns that reflection as it is stored, generates nothing and
  leaves the storage as it was. So a second call with the same arguments returns the
  same reflection, also when the pools have changed in between (\<open>P'\<close> for \<open>P\<close>).
\<close>

theorem getReflectionForDate_cache_hit:
  assumes "toISOString H d = Inr full"
      and "getItem_reflection st (reflectionKey (take 10 full) t) = Inr (Some (Entry r))"
  shows "getReflectionForDate H P st d t = (Inr r, st)
       \<and> getReflectionForDate H P' (snd (getReflectionForDate H P st d t)) d t = (Inr r, st)"
  using assms
  by (simp add: getReflectionForDate_def getStoredReflection_def Let_def)

theorem getReflectionForDate_cache_hit_witness:
  "getReflectionForDate januaryHost sourcePools cachedStorage 0 Mindfulness
     = (Inr sampleReflection, cachedStorage)
   \<and> getReflectionForDate januaryHost changedPools
       (snd (getReflectionForDate januaryHost sourcePools cachedStorage 0 Mindfulness)) 0 Mindfulness
     = (Inr sampleReflection, cachedStorage)"
  by (rule getReflectionForDate_cache_hit [OF januaryHost_iso0 getItem_cachedStorage])

text \<open>
  The first generation is kept when the write succeeds: a call that finds nothing stored
  generates, stores, and the next call returns the same reflection from the cache,
  whatever the pools have become.
\<close>

lemma getReflectionForDate_miss_then_hit:
  assumes "toISOString H d = Inr full"
      and "getStoredReflection st (reflectionKey (take 10 full) t) = None"
      and "generateReflection H P d t = Inr g"
      and "ls_available st" and "\<not> ls_quotaExceeded st"
  shows "fst (getReflectionForDate H P st d t) = Inr g
       \<and> fst (getReflectionForDate H P' (snd (getReflectionForDate H P st d t)) d t) = Inr g"
  using assms
  by (simp add: getReflectionForDate_def getStoredReflection_def Let_def storeReflection_def
      setItem_reflection_def getItem_reflection_def)



section \<open>Article ids\<close>

lemma of_char_digitChar: "n < 10 \<Longrightarrow> (of_char (digitChar n) :: nat) = 48 + n"
  by simp






lemma not_isDigit_hyphen: "\<not> isDigit (CHR ''-'')"
  by (simp add: isDigit_def)

lemma matchArticleId_build:
  assumes "g1 \<noteq> []" "list_all isSlugChar g1" "length g2 = 8" "list_all isDigit g2"
      "g3 \<noteq> []" "list_all isDigit g3"
  shows "matchArticleId (g1 @ ''-'' @ g2 @ ''-'' @ g3) = Some (g1, g2, g3)"
proof -
  have r: "rev (g1 @ ''-'' @ g2 @ ''-'' @ g3) = rev g3 @ CHR ''-'' # rev g2 @ CHR ''-'' # rev g1"
    by simp
  have d3: "\<forall>x \<in> set (rev g3). isDigit x"
    using assms(6) by (simp add: list_all_iff)
  have tw0: "takeWhile isDigit (rev g3 @ ys) = rev g3 @ takeWhile isDigit ys" for ys
    by (rule takeWhile_append2) (use d3 in auto)
  have dw0: "dropWhile isDigit (rev g3 @ ys) = dropWhile isDigit ys" for ys
    by (rule dropWhile_append2) (use d3 in auto)
  have tw: "takeWhile isDigit (rev g3 @ CHR ''-'' # rev g2 @ CHR ''-'' # rev g1) = rev g3"
    using not_isDigit_hyphen by (simp add: tw0)
  have dw: "dropWhile isDigit (rev g3 @ CHR ''-'' # rev g2 @ CHR ''-'' # rev g1)
              = CHR ''-'' # rev g2 @ CHR ''-'' # rev g1"
    using not_isDigit_hyphen by (simp add: dw0)
  show ?thesis
    apply (simp only: matchArticleId_def r Let_def tw dw)
    using assms apply simp
    done
qed

lemma matchArticleId_Some:
  assumes "matchArticleId aid = Some (g1, g2, g3)"
  shows "aid = g1 @ ''-'' @ g2 @ ''-'' @ g3 \<and> g1 \<noteq> [] \<and> list_all isSlugChar g1
         \<and> length g2 = 8 \<and> list_all isDigit g2 \<and> g3 \<noteq> [] \<and> list_all isDigit g3"
proof -
  define r where "r = rev aid"
  define a3 where "a3 = takeWhile isDigit r"
  define r1 where "r1 = dropWhile isDigit r"
  define a2 where "a2 = take 8 (tl r1)"
  define r2 where "r2 = drop 8 (tl r1)"
  define a1 where "a1 = tl r2"
  have m: "matchArticleId aid =
     (if a3 = [] \<or> r1 = [] \<or> hd r1 \<noteq> CHR ''-'' then None
      else if length a2 \<noteq> 8 \<or> \<not> list_all isDigit a2 \<or> r2 = [] \<or> hd r2 \<noteq> CHR ''-'' then None
      else if a1 = [] \<or> \<not> list_all isSlugChar a1 then None
      else Some (rev a1, rev a2, rev a3))"
    by (simp add: matchArticleId_def Let_def r_def a3_def r1_def a2_def r2_def a1_def)
  from assms m have c1: "a3 \<noteq> []" "r1 \<noteq> []" "hd r1 = CHR ''-''"
    and c2: "length a2 = 8" "list_all isDigit a2" "r2 \<noteq> []" "hd r2 = CHR ''-''"
    and c3: "a1 \<noteq> []" "list_all isSlugChar a1"
    and res: "g1 = rev a1" "g2 = rev a2" "g3 = rev a3"
    by (auto split: if_splits)
  have "r = a3 @ r1"
    by (simp add: a3_def r1_def)
  moreover have "r1 = CHR ''-'' # tl r1"
    using c1 by (cases r1) auto
  moreover have "tl r1 = a2 @ r2"
    by (simp add: a2_def r2_def)
  moreover have "r2 = CHR ''-'' # a1"
    using c2 by (cases r2) (auto simp add: a1_def)
  ultimately have "r = a3 @ CHR ''-'' # a2 @ CHR ''-'' # a1"
    by simp
  then have "rev r = rev a1 @ ''-'' @ rev a2 @ ''-'' @ rev a3"
    by simp
  then have aid: "aid = g1 @ ''-'' @ g2 @ ''-'' @ g3"
    by (simp add: r_def res)
  have d3: "list_all isDigit a3"
    unfolding a3_def list_all_iff using set_takeWhileD by fastforce
  show ?thesis
    using aid c1 c2 c3 d3 by (simp add: res list_all_iff)
qed

lemma matchArticleId_iff:
  "matchArticleId aid = Some (g1, g2, g3) \<longleftrightarrow>
     aid = g1 @ ''-'' @ g2 @ ''-'' @ g3 \<and> g1 \<noteq> [] \<and> list_all isSlugChar g1
     \<and> length g2 = 8 \<and> list_all isDigit g2 \<and> g3 \<noteq> [] \<and> list_all isDigit g3"
  using matchArticleId_Some [of aid g1 g2 g3] matchArticleId_build [of g1 g2 g3]
  by blast





lemma titlePool_nonempty: "titlePool topic \<noteq> []"
  by (cases topic) simp_all

lemma excerptPool_nonempty: "excerptPool topic \<noteq> []"
  by (cases topic) simp_all

lemma extraTags_nonempty: "extraTags topic \<noteq> []"
  by (cases topic) simp_all

lemma generateArticleCore_total:
  "\<exists>core. generateArticleCore topic dateISO index = Inr core
     \<and> c_id core = articleId topic dateISO index
     \<and> c_topic core = topic \<and> c_dateISO core = dateISO"
  using titlePool_nonempty [of topic] excerptPool_nonempty [of topic] extraTags_nonempty [of topic]
  by (simp add: generateArticleCore_def Let_def bindE_def defined_def pick_ae_def buildBody_eq
      quotePool_ae_def)








lemma articleId_sample: "articleId Ethics ''2025-08-11'' 1 = ''ethics-20250811-1''"
  by (simp add: articleId_def numberToString.simps char_of_nat_eq)




section \<open>Digests\<close>

lemma bindE_Inr: "bindE (Inr x) f = f x"
  by (simp add: bindE_def)

lemma mapE_Inr:
  assumes "\<And>x. x \<in> set xs \<Longrightarrow> f x = Inr (g x)"
  shows "mapE f xs = Inr (map g xs)"
  using assms by (induction xs) (simp_all add: bindE_Inr)

lemma generateArticleCore_Inr:
  "generateArticleCore topic dateISO index = Inr (projr (generateArticleCore topic dateISO index))"
  using generateArticleCore_total [of topic dateISO index] by auto

lemma c_id_generateArticleCore:
  "c_id (projr (generateArticleCore topic dateISO index)) = articleId topic dateISO index"
  using generateArticleCore_total [of topic dateISO index] by auto

lemma cardOf_generateArticleCore:
  "bindE (generateArticleCore topic dateISO index) (\<lambda>core. Inr (cardOf core))
     = Inr (cardOf (projr (generateArticleCore topic dateISO index)))"
  using generateArticleCore_total [of topic dateISO index] by (auto simp add: bindE_def)

lemma listArticlesForDate_one:
  assumes "toISOString H d = Inr full"
  shows "listArticlesForDate H d 1
           = Inr (map (\<lambda>t. cardOf (projr (generateArticleCore (m_key t) (take 10 full) 1))) topics)"
proof -
  have c: "concat (map (\<lambda>t. map (\<lambda>i. (t, i)) [1 ..< Suc 1]) topics) = map (\<lambda>t. (t, 1)) topics"
    by (simp add: topics_def)
  have m: "mapE (\<lambda>(t, i). bindE (generateArticleCore (m_key t) (take 10 full) i) (\<lambda>core. Inr (cardOf core)))
             (map (\<lambda>t. (t, 1)) topics)
           = Inr (map (\<lambda>p. cardOf (projr (generateArticleCore (m_key (fst p)) (take 10 full) (snd p))))
                   (map (\<lambda>t. (t, 1)) topics))"
    by (rule mapE_Inr) (auto simp add: cardOf_generateArticleCore)
  show ?thesis
    unfolding listArticlesForDate_def assms bindE_Inr Let_def c m
    by (simp add: comp_def)
qed

lemma generateReflection_total:
  assumes "toISOString H d = Inr full"
  shows "\<exists>r. generateReflection H sourcePools d t = Inr r
           \<and> r_dateISO r = take 10 full \<and> r_theme r = t"
  using assms titleFragments_nonempty [of t]
  by (simp add: generateReflection_def bindE_def sourcePools_def Let_def pick_def
      scripturePool_def quotePool_def prayers_def questionsPool_def)

lemma getReflectionForDate_total:
  assumes "toISOString H d = Inr full"
  shows "\<exists>r st'. getReflectionForDate H sourcePools st d t = (Inr r, st')"
proof (cases "getStoredReflection st (reflectionKey (take 10 full) t)")
  case None
  with generateReflection_total [OF assms, of t] assms show ?thesis
    by (auto simp add: getReflectionForDate_def Let_def)
next
  case (Some r)
  with assms show ?thesis
    by (simp add: getReflectionForDate_def Let_def)
qed

lemma buildDailyDigest_eq:
  assumes iso: "toISOString H date = Inr full"
      and refl: "getReflectionForDate H sourcePools st date Mindfulness = (Inr r, st')"
  shows "buildDailyDigest H sourcePools st date =
     (Inr \<lparr>d_subject = ''Daily '' @ bullet @ '' '' @ toLocaleDateString H date,
           d_reflection = r,
           d_articles = map (\<lambda>t. cardOf (projr (generateArticleCore t (take 10 full) 1)))
                          [FaithAndReason, Ethics, Metaphysics]\<rparr>, st')"
  unfolding buildDailyDigest_def refl listArticlesForDate_one [OF iso]
  by (simp add: topics_def formatHumanDate_def)

lemma first_map_topics:
  "first (map f topics) = Some (f \<lparr>m_key = FaithAndReason, m_label = ''Faith & Reason'', m_imageKeyword = ''compass''\<rparr>)"
  by (simp add: first_def topics_def)

lemma filterBoolean_map_Some: "filterBoolean (map Some xs) = xs"
  by (induction xs) (simp_all add: filterBoolean_def List.map_filter_simps)

lemma filterBoolean_map_Some_comp: "filterBoolean (map (Some \<circ> f) xs) = map f xs"
  using filterBoolean_map_Some [of "map f xs"] by simp

lemma buildWeeklyDigest_eq:
  assumes days: "\<And>i. i < 7 \<Longrightarrow> toISOString H (daysBefore H endDate i) = Inr (fulls i)"
      and refl: "getReflectionForDate H sourcePools st endDate FaithReason = (Inr r, st')"
  shows "buildWeeklyDigest H sourcePools st endDate =
     (Inr \<lparr>d_subject = ''Weekly Digest '' @ bullet @ '' '' @ toLocaleDateString H (daysBefore H endDate 6)
                          @ '' '' @ ndash @ '' '' @ toLocaleDateString H (daysBefore H endDate 0),
           d_reflection = r,
           d_articles = map (\<lambda>i. cardOf (projr (generateArticleCore FaithAndReason (take 10 (fulls i)) 1)))
                          [0 ..< 7]\<rparr>, st')"
proof -
  have m: "mapE (\<lambda>d. bindE (listArticlesForDate H d 1) (\<lambda>l. Inr (first l))) (previousDays H endDate 7)
      = Inr (map (\<lambda>d. Some (cardOf (projr (generateArticleCore FaithAndReason
                 (take 10 (projr (toISOString H d))) 1))))
               (previousDays H endDate 7))"
  proof (rule mapE_Inr)
    fix d assume "d \<in> set (previousDays H endDate 7)"
    then obtain i where i: "i < 7" "d = daysBefore H endDate i"
      by (auto simp add: previousDays_def)
    show "bindE (listArticlesForDate H d 1) (\<lambda>l. Inr (first l))
        = Inr (Some (cardOf (projr (generateArticleCore FaithAndReason (take 10 (projr (toISOString H d))) 1))))"
      unfolding i(2) listArticlesForDate_one [OF days [OF i(1)]] bindE_Inr first_map_topics
      using days [OF i(1)] by simp
  qed
  have pd: "previousDays H endDate 7 = map (daysBefore H endDate) [0 ..< 7]"
    by (simp add: previousDays_def)
  have arts: "map (\<lambda>d. cardOf (projr (generateArticleCore FaithAndReason (take 10 (projr (toISOString H d))) 1)))
                (map (daysBefore H endDate) [0 ..< 7])
            = map (\<lambda>i. cardOf (projr (generateArticleCore FaithAndReason (take 10 (fulls i)) 1))) [0 ..< 7]"
    using days by simp
  have hl: "map (\<lambda>d. Some (cardOf (projr (generateArticleCore FaithAndReason (take 10 (projr (toISOString H d))) 1))))
                (previousDays H endDate 7)
            = map Some (map (\<lambda>i. cardOf (projr (generateArticleCore FaithAndReason (take 10 (fulls i)) 1))) [0 ..< 7])"
    unfolding pd arts [symmetric] by simp
  have nth6: "previousDays H endDate 7 ! 6 = daysBefore H endDate 6"
    "previousDays H endDate 7 ! 0 = daysBefore H endDate 0"
    "length (previousDays H endDate 7) = 7"
    by (simp_all add: pd del: upt_Suc)
  note mh = m [unfolded hl]
  have tk: "take 7 (map (\<lambda>i. cardOf (projr (generateArticleCore FaithAndReason (take 10 (fulls i)) 1))) [0 ..< 7])
              = map (\<lambda>i. cardOf (projr (generateArticleCore FaithAndReason (take 10 (fulls i)) 1))) [0 ..< 7]"
    by (rule take_all) simp
  show ?thesis
    unfolding buildWeeklyDigest_def Let_def refl mh
    by (simp add: nth6 formatHumanDate_def filterBoolean_map_Some_comp del: upt_Suc)
qed


lemma getReflectionForDate_result:
  assumes "getReflectionForDate H P st d t = (Inr r, st')" and "toISOString H d = Inr full"
  shows "(case getStoredReflection st (reflectionKey (take 10 full) t) of
            Some c \<Rightarrow> r = c \<and> st' = st
          | None \<Rightarrow> generateReflection H P d t = Inr r \<and> st' = storeReflection st (reflectionKey (take 10 full) t) r)"
  using assms
  by (auto simp add: getReflectionForDate_def Let_def split: option.splits sum.splits)

lemma a_id_cardOf: "a_id (cardOf c) = c_id c"
  by (simp add: cardOf_def)

text \<open>
  C6. For every (valid) date, \<open>buildDailyDigest\<close> returns the reflection that
  \<open>getReflectionForDate\<close> gives for that date and the theme \<open>mindfulness\<close> (the cached
  one, or else the generated one), together with the first three articles of
  \<open>listArticlesForDate(date, 1)\<close>: the articles of index 1 of the first three topics. For
  every end date whose seven days back are valid, \<open>buildWeeklyDigest\<close> returns the
  reflection for the end date and the theme \<open>faith-reason\<close>, together with seven articles:
  the \<open>i\<close>-th is the first article of the day \<open>i\<close> days before the end date, going
  backward; no day is skipped, since every day yields articles.
\<close>

theorem digest_contents:
  assumes d: "toISOString H date = Inr full"
      and w: "\<And>i. i < 7 \<Longrightarrow> toISOString H (daysBefore H endDate i) = Inr (fulls i)"
      and e: "toISOString H endDate = Inr efull"
  shows "(\<exists>D r st'. buildDailyDigest H sourcePools st date = (Inr D, st')
            \<and> getReflectionForDate H sourcePools st date Mindfulness = (Inr r, st')
            \<and> d_reflection D = r
            \<and> (case getStoredReflection st (reflectionKey (take 10 full) Mindfulness) of
                  Some c \<Rightarrow> r = c
                | None \<Rightarrow> generateReflection H sourcePools date Mindfulness = Inr r)
            \<and> (\<exists>all. listArticlesForDate H date 1 = Inr all \<and> d_articles D = take 3 all)
            \<and> length (d_articles D) = 3
            \<and> map a_id (d_articles D)
                = map (\<lambda>t. articleId t (take 10 full) 1) [FaithAndReason, Ethics, Metaphysics])
       \<and> (\<exists>D r st'. buildWeeklyDigest H sourcePools st endDate = (Inr D, st')
            \<and> getReflectionForDate H sourcePools st endDate FaithReason = (Inr r, st')
            \<and> d_reflection D = r
            \<and> (case getStoredReflection st (reflectionKey (take 10 efull) FaithReason) of
                  Some c \<Rightarrow> r = c
                | None \<Rightarrow> generateReflection H sourcePools endDate FaithReason = Inr r)
            \<and> length (d_articles D) = 7
            \<and> (\<forall>i<7. \<exists>all. listArticlesForDate H (daysBefore H endDate i) 1 = Inr all
                          \<and> first all = Some (d_articles D ! i))
            \<and> map a_id (d_articles D)
                = map (\<lambda>i. articleId FaithAndReason (take 10 (fulls i)) 1) [0 ..< 7])"
proof (rule conjI)
  obtain r st' where refl: "getReflectionForDate H sourcePools st date Mindfulness = (Inr r, st')"
    using getReflectionForDate_total [OF d] by blast
  have res: "(case getStoredReflection st (reflectionKey (take 10 full) Mindfulness) of
                  Some c \<Rightarrow> r = c
                | None \<Rightarrow> generateReflection H sourcePools date Mindfulness = Inr r)"
    using getReflectionForDate_result [OF refl d] by (simp split: option.splits)
  have arts: "take 3 (map (\<lambda>t. cardOf (projr (generateArticleCore (m_key t) (take 10 full) 1))) topics)
      = map (\<lambda>t. cardOf (projr (generateArticleCore t (take 10 full) 1))) [FaithAndReason, Ethics, Metaphysics]"
    by (simp add: topics_def)
  show "\<exists>D r st'. buildDailyDigest H sourcePools st date = (Inr D, st')
            \<and> getReflectionForDate H sourcePools st date Mindfulness = (Inr r, st')
            \<and> d_reflection D = r
            \<and> (case getStoredReflection st (reflectionKey (take 10 full) Mindfulness) of
                  Some c \<Rightarrow> r = c
                | None \<Rightarrow> generateReflection H sourcePools date Mindfulness = Inr r)
            \<and> (\<exists>all. listArticlesForDate H date 1 = Inr all \<and> d_articles D = take 3 all)
            \<and> length (d_articles D) = 3
            \<and> map a_id (d_articles D)
                = map (\<lambda>t. articleId t (take 10 full) 1) [FaithAndReason, Ethics, Metaphysics]"
    unfolding buildDailyDigest_eq [OF d refl] listArticlesForDate_one [OF d]
    using refl res arts
    by (simp add: a_id_cardOf c_id_generateArticleCore)
next
  obtain r st' where refl: "getReflectionForDate H sourcePools st endDate FaithReason = (Inr r, st')"
    using getReflectionForDate_total [OF e] by blast
  have res: "(case getStoredReflection st (reflectionKey (take 10 efull) FaithReason) of
                  Some c \<Rightarrow> r = c
                | None \<Rightarrow> generateReflection H sourcePools endDate FaithReason = Inr r)"
    using getReflectionForDate_result [OF refl e] by (simp split: option.splits)
  have each: "\<forall>i<7. \<exists>all. listArticlesForDate H (daysBefore H endDate i) 1 = Inr all
      \<and> first all = Some (map (\<lambda>i. cardOf (projr (generateArticleCore FaithAndReason (take 10 (fulls i)) 1))) [0 ..< 7] ! i)"
  proof (intro allI impI)
    fix i :: nat assume i: "i < 7"
    have n: "map (\<lambda>i. cardOf (projr (generateArticleCore FaithAndReason (take 10 (fulls i)) 1))) [0 ..< 7] ! i
        = cardOf (projr (generateArticleCore FaithAndReason (take 10 (fulls i)) 1))"
      using i by (simp del: upt_Suc)
    show "\<exists>all. listArticlesForDate H (daysBefore H endDate i) 1 = Inr all
      \<and> first all = Some (map (\<lambda>i. cardOf (projr (generateArticleCore FaithAndReason (take 10 (fulls i)) 1))) [0 ..< 7] ! i)"
      unfolding listArticlesForDate_one [OF w [OF i]] n
      by (simp add: first_map_topics)
  qed
  have eq: "buildWeeklyDigest H sourcePools st endDate =
     (Inr \<lparr>d_subject = ''Weekly Digest '' @ bullet @ '' '' @ toLocaleDateString H (daysBefore H endDate 6)
                          @ '' '' @ ndash @ '' '' @ toLocaleDateString H (daysBefore H endDate 0),
           d_reflection = r,
           d_articles = map (\<lambda>i. cardOf (projr (generateArticleCore FaithAndReason (take 10 (fulls i)) 1)))
                          [0 ..< 7]\<rparr>, st')"
    by (rule buildWeeklyDigest_eq) (simp_all add: w refl)
  show "\<exists>D r st'. buildWeeklyDigest H sourcePools st endDate = (Inr D, st')
            \<and> getReflectionForDate H sourcePools st endDate FaithReason = (Inr r, st')
            \<and> d_reflection D = r
            \<and> (case getStoredReflection st (reflectionKey (take 10 efull) FaithReason) of
                  Some c \<Rightarrow> r = c
                | None \<Rightarrow> generateReflection H sourcePools endDate FaithReason = Inr r)
            \<and> length (d_articles D) = 7
            \<and> (\<forall>i<7. \<exists>all. listArticlesForDate H (daysBefore H endDate i) 1 = Inr all
                          \<and> first all = Some (d_articles D ! i))
            \<and> map a_id (d_articles D)
                = map (\<lambda>i. articleId FaithAndReason (take 10 (fulls i)) 1) [0 ..< 7]"
    unfolding eq
    using refl res each
    by (simp add: a_id_cardOf c_id_generateArticleCore comp_def del: upt_Suc)
qed

lemma januaryHost_iso9: "toISOString januaryHost 9 = Inr ''2025-01-10T12:00:00.000Z''"
  by (simp add: januaryHost_def pad2_def numberToString.simps char_of_nat_eq)

lemma januaryHost_week:
  "i < 7 \<Longrightarrow> toISOString januaryHost (daysBefore januaryHost 9 i)
              = Inr (''2025-01-'' @ pad2 (10 - i) @ ''T12:00:00.000Z'')"
proof -
  assume "i < 7"
  then have "Suc (9 - i) = 10 - i" and "9 - i < 31"
    by simp_all
  then show ?thesis
    by (simp add: januaryHost_def)
qed

lemma upt_0_7: "[0 ..< 7] = [0, 1, 2, 3, 4, 5, 6]"
  by (simp add: upt_rec)

theorem digest_contents_witness:
  "(\<exists>D st'. buildDailyDigest januaryHost sourcePools emptyStorage 0 = (Inr D, st')
      \<and> map a_id (d_articles D)
          = [''faith-and-reason-20250101-1'', ''ethics-20250101-1'', ''metaphysics-20250101-1''])
   \<and> (\<exists>D st'. buildWeeklyDigest januaryHost sourcePools emptyStorage 9 = (Inr D, st')
      \<and> map a_id (d_articles D)
          = [''faith-and-reason-20250110-1'', ''faith-and-reason-20250109-1'',
             ''faith-and-reason-20250108-1'', ''faith-and-reason-20250107-1'',
             ''faith-and-reason-20250106-1'', ''faith-and-reason-20250105-1'',
             ''faith-and-reason-20250104-1''])"
proof -
  have ids: "map (\<lambda>t. articleId t (take 10 ''2025-01-01T12:00:00.000Z'') 1) [FaithAndReason, Ethics, Metaphysics]
      = [''faith-and-reason-20250101-1'', ''ethics-20250101-1'', ''metaphysics-20250101-1'']"
    by (simp add: articleId_def numberToString.simps char_of_nat_eq)
  have wk: "map (\<lambda>i. articleId FaithAndReason (take 10 (''2025-01-'' @ pad2 (10 - i) @ ''T12:00:00.000Z'')) 1) [0 ..< 7]
      = [''faith-and-reason-20250110-1'', ''faith-and-reason-20250109-1'',
             ''faith-and-reason-20250108-1'', ''faith-and-reason-20250107-1'',
             ''faith-and-reason-20250106-1'', ''faith-and-reason-20250105-1'',
             ''faith-and-reason-20250104-1'']"
    unfolding upt_0_7
    by (simp add: articleId_def pad2_def numberToString.simps char_of_nat_eq)
  have "(\<exists>D r st'. buildDailyDigest januaryHost sourcePools emptyStorage 0 = (Inr D, st')
            \<and> getReflectionForDate januaryHost sourcePools emptyStorage 0 Mindfulness = (Inr r, st')
            \<and> d_reflection D = r
            \<and> (case getStoredReflection emptyStorage
                        (reflectionKey (take 10 ''2025-01-01T12:00:00.000Z'') Mindfulness) of
                  Some c \<Rightarrow> r = c
                | None \<Rightarrow> generateReflection januaryHost sourcePools 0 Mindfulness = Inr r)
            \<and> (\<exists>all. listArticlesForDate januaryHost 0 1 = Inr all \<and> d_articles D = take 3 all)
            \<and> length (d_articles D) = 3
            \<and> map a_id (d_articles D)
                = map (\<lambda>t. articleId t (take 10 ''2025-01-01T12:00:00.000Z'') 1)
                    [FaithAndReason, Ethics, Metaphysics])
       \<and> (\<exists>D r st'. buildWeeklyDigest januaryHost sourcePools emptyStorage 9 = (Inr D, st')
            \<and> getReflectionForDate januaryHost sourcePools emptyStorage 9 FaithReason = (Inr r, st')
            \<and> d_reflection D = r
            \<and> (case getStoredReflection emptyStorage
                        (reflectionKey (take 10 ''2025-01-10T12:00:00.000Z'') FaithReason) of
                  Some c \<Rightarrow> r = c
                | None \<Rightarrow> generateReflection januaryHost sourcePools 9 FaithReason = Inr r)
            \<and> length (d_articles D) = 7
            \<and> (\<forall>i<7. \<exists>all. listArticlesForDate januaryHost (daysBefore januaryHost 9 i) 1 = Inr all
                          \<and> first all = Some (d_articles D ! i))
            \<and> map a_id (d_articles D)
                = map (\<lambda>i. articleId FaithAndReason
                              (take 10 (''2025-01-'' @ pad2 (10 - i) @ ''T12:00:00.000Z'')) 1) [0 ..< 7])"
    by (rule digest_contents) (rule januaryHost_iso0 januaryHost_week januaryHost_iso9 | assumption)+
  then show ?thesis
    unfolding ids wk
    by (elim conjE exE) (intro conjI exI; assumption)
qed



section \<open>Parsing the remote CSV\<close>











lemma lowerChar_lower: "97 \<le> (of_char c :: nat) \<Longrightarrow> of_char c \<le> (122 :: nat) \<Longrightarrow> lowerChar c = c"
  by (simp add: lowerChar_def Let_def)















end
